theory Spec2Isabelle
  imports Main
begin

section \<open>Strings, numbers and paths as the Python code uses them\<close>

text \<open>
  File names and titles are \<^typ>\<open>string\<close>s of ASCII characters. A path is the list of
  its components below the root, so \<open>album / "raw"\<close> appends one component. Paths are
  taken to be absolute and free of symbolic links, so \<open>resolve()\<close> is the identity.
\<close>

type_synonym path = "string list"

definition path_name :: "path \<Rightarrow> string" where
  \<comment> \<open>\<open>PurePath.name\<close>: the last component, empty for the root.\<close>
  "path_name p = (if p = [] then [] else last p)"

definition parent :: "path \<Rightarrow> path" where
  "parent p = butlast p"

definition rfind :: "char \<Rightarrow> string \<Rightarrow> nat option" where
  \<comment> \<open>\<open>str.rfind\<close> of one character: the index of its last occurrence.\<close>
  "rfind c s =
     (if c \<in> set s then Some (length s - 1 - length (takeWhile (\<lambda>x. x \<noteq> c) (rev s)))
      else None)"

definition name_suffix :: "string \<Rightarrow> string" where
  \<comment> \<open>\<open>PurePath.suffix\<close>: \<open>i = name.rfind('.')\<close>, and \<open>name[i:]\<close> when
      \<open>0 < i < len(name) - 1\<close>, the empty string otherwise.\<close>
  "name_suffix nm =
     (case rfind (CHR ''.'') nm of
        None \<Rightarrow> []
      | Some i \<Rightarrow> if 0 < i \<and> i + 1 < length nm then drop i nm else [])"

definition name_stem :: "string \<Rightarrow> string" where
  \<comment> \<open>\<open>PurePath.stem\<close>: \<open>name[:i]\<close> under the same condition, the whole name otherwise.\<close>
  "name_stem nm =
     (case rfind (CHR ''.'') nm of
        None \<Rightarrow> nm
      | Some i \<Rightarrow> if 0 < i \<and> i + 1 < length nm then take i nm else nm)"

definition suffix :: "path \<Rightarrow> string" where
  "suffix p = name_suffix (path_name p)"

definition stem :: "path \<Rightarrow> string" where
  "stem p = name_stem (path_name p)"

fun py_in :: "string \<Rightarrow> string \<Rightarrow> bool" where
  \<comment> \<open>\<open>sub in s\<close> on strings: \<open>sub\<close> occurs in \<open>s\<close> as a contiguous block.\<close>
  "py_in sub [] = (sub = [])"
| "py_in sub (c # cs) = (take (length sub) (c # cs) = sub \<or> py_in sub cs)"

definition digit_char :: "nat \<Rightarrow> char" where
  "digit_char d = ''0123456789'' ! (d mod 10)"

fun nat_str :: "nat \<Rightarrow> string" where
  "nat_str n = (if n < 10 then [digit_char n] else nat_str (n div 10) @ [digit_char (n mod 10)])"

declare nat_str.simps [simp del]

definition py_str :: "int \<Rightarrow> string" where
  \<comment> \<open>\<open>str(n)\<close> and \<open>f"{n}"\<close> of a Python integer.\<close>
  "py_str n = (if n < 0 then CHR ''-'' # nat_str (nat (- n)) else nat_str (nat n))"

section \<open>Errors\<close>

text \<open>
  Every exception the modelled code can raise is a value. \<open>ValueError_count m t\<close> is the
  count mismatch of the track matcher ("Found m music files, but given t titles."),
  \<open>RuntimeError_no_match k title\<close> its "Found no music files matching k-title",
  \<open>TypeError_join\<close> is \<open>str.join\<close> applied to a list whose items are not strings,
  \<open>TypeError_subscript\<close> is a subscript with a string key, or a membership test, on a JSON
  value that does not support it,
  \<open>ValueError_int s\<close> is \<open>int(s)\<close> on a string that is no integer literal,
  \<open>FileNotFoundError_no_config d\<close> is the pipeline's "No .json config file found in d,
  and not provided at CLI", \<open>CalledProcessError\<close> is an external program leaving with a
  non-zero status under \<open>check=True\<close>, and \<open>ShutilError\<close> is \<open>shutil.Error\<close>.
\<close>

datatype error =
    FileNotFoundError path
  | NotADirectoryError path
  | IsADirectoryError path
  | FileNotFoundError_no_config path
  | FileExistsError path
  | ValueError_count nat nat
  | ValueError_int string
  | RuntimeError_no_match int string
  | TypeError_join
  | TypeError_subscript
  | KeyError string
  | JSONDecodeError path
  | EOFError
  | CalledProcessError
  | ShutilError path

section \<open>The file system\<close>

datatype kind = File | Dir

type_synonym filesystem = "(path \<times> kind) list"

definition is_file :: "path \<Rightarrow> filesystem \<Rightarrow> bool" where
  "is_file p fs = ((p, File) \<in> set fs)"

definition is_dir :: "path \<Rightarrow> filesystem \<Rightarrow> bool" where
  "is_dir p fs = ((p, Dir) \<in> set fs)"

definition path_exists :: "path \<Rightarrow> filesystem \<Rightarrow> bool" where
  "path_exists p fs = (p \<in> fst ` set fs)"

definition children :: "path \<Rightarrow> filesystem \<Rightarrow> path list" where
  \<comment> \<open>The entries directly inside a directory, in the order the system lists them.\<close>
  "children d fs = filter (\<lambda>p. p \<noteq> [] \<and> parent p = d) (map fst fs)"

definition iterdir :: "path \<Rightarrow> filesystem \<Rightarrow> error + path list" where
  "iterdir d fs =
     (if is_dir d fs then Inr (children d fs)
      else if is_file d fs then Inl (NotADirectoryError d)
      else Inl (FileNotFoundError d))"

section \<open>The track matcher\<close>

definition matches_track :: "int \<Rightarrow> string \<Rightarrow> path \<Rightarrow> bool" where
  \<comment> \<open>\<open>str(track_number) in f.stem or title in f.stem\<close>\<close>
  "matches_track track_number title f =
     (py_in (py_str track_number) (stem f) \<or> py_in title (stem f))"

text \<open>
  The loop over \<open>enumerate(title_list[::-1])\<close>. Its first argument is \<open>len(title_list)\<close>,
  the second the enumerated reversed titles still to be processed. When more than one
  file matches, the source builds its message with \<open>','.join(possible_tracks)\<close>; the
  elements are \<open>Path\<close> objects, not strings, so \<open>str.join\<close> raises \<open>TypeError\<close> before the
  \<open>RuntimeError\<close> is constructed.
\<close>

fun match_loop ::
  "nat \<Rightarrow> (nat \<times> string) list \<Rightarrow> path list \<Rightarrow> (string \<times> path) list
     \<Rightarrow> error + (string \<times> path) list" where
  "match_loop n [] music_files mapping = Inr mapping"
| "match_loop n ((i, title) # rest) music_files mapping =
     (let track_number = int n - int i;
          possible_tracks = filter (matches_track track_number title) music_files
      in if length possible_tracks > 1 then Inl TypeError_join
         else if length possible_tracks = 0 then Inl (RuntimeError_no_match track_number title)
         else match_loop n rest
                (filter (\<lambda>m. m \<noteq> possible_tracks ! 0) music_files)
                (mapping @ [(title, possible_tracks ! 0)]))"

definition music_files_of :: "path list \<Rightarrow> path list" where
  \<comment> \<open>\<open>[f for f in ... if f.suffix in ['.wav', '.mp3']]\<close>\<close>
  "music_files_of entries = filter (\<lambda>f. suffix f \<in> {''.wav'', ''.mp3''}) entries"

definition match_titles_to_files ::
  "string list \<Rightarrow> path \<Rightarrow> filesystem \<Rightarrow> error + (string \<times> path) list" where
  "match_titles_to_files title_list directory fs =
     (case iterdir directory fs of
        Inl e \<Rightarrow> Inl e
      | Inr entries \<Rightarrow>
          let music_files = music_files_of entries in
          if length title_list \<noteq> length music_files
          then Inl (ValueError_count (length music_files) (length title_list))
          else (case match_loop (length title_list)
                       (zip [0 ..< length title_list] (rev title_list)) music_files [] of
                  Inl e \<Rightarrow> Inl e
                | Inr mapping \<Rightarrow> Inr (rev mapping)))"

text \<open>
  The condition under which the matcher is specified to succeed: going from the last
  title to the first, the title at position \<open>i\<close> (track number \<open>i + 1\<close>) is matched by
  exactly one of the candidates still remaining, and that candidate is then removed.
  The argument is the title list reversed, so its head is the title processed next.
\<close>

fun uniquely_matchable :: "string list \<Rightarrow> path list \<Rightarrow> bool" where
  "uniquely_matchable [] remaining = True"
| "uniquely_matchable (title # earlier) remaining =
     (case filter (matches_track (int (Suc (length earlier))) title) remaining of
        [f] \<Rightarrow> uniquely_matchable earlier (removeAll f remaining)
      | _ \<Rightarrow> False)"



section \<open>Reading integers\<close>

text \<open>
  \<open>int(s)\<close> on a string: surrounding whitespace is stripped, one sign is allowed, and the
  digits may be separated by single underscores. The relocation step applies it to the
  two characters \<open>name[5:7]\<close>.
\<close>

definition is_space :: "char \<Rightarrow> bool" where
  "is_space c = (c \<in> set [CHR '' '', CHR 0x09, CHR 0x0A, CHR 0x0B, CHR 0x0C, CHR 0x0D,
                           CHR 0x1C, CHR 0x1D, CHR 0x1E, CHR 0x1F])"

definition is_digit :: "char \<Rightarrow> bool" where
  "is_digit c = (c \<in> set ''0123456789'')"

definition digit_val :: "char \<Rightarrow> nat" where
  "digit_val c = of_char c - 48"

fun digits_from :: "nat \<Rightarrow> string \<Rightarrow> nat option" where
  "digits_from acc [] = Some acc"
| "digits_from acc [c] = (if is_digit c then Some (10 * acc + digit_val c) else None)"
| "digits_from acc (c # d # cs) =
     (if is_digit c then digits_from (10 * acc + digit_val c) (d # cs)
      else if c = CHR ''_'' \<and> is_digit d then digits_from (10 * acc + digit_val d) cs
      else None)"

definition py_digits :: "string \<Rightarrow> nat option" where
  "py_digits s =
     (case s of [] \<Rightarrow> None
      | c # cs \<Rightarrow> if is_digit c then digits_from (digit_val c) cs else None)"

definition py_strip :: "string \<Rightarrow> string" where
  "py_strip s = dropWhile is_space (rev (dropWhile is_space (rev s)))"

definition py_int :: "string \<Rightarrow> int option" where
  "py_int s =
     (case py_strip s of
        [] \<Rightarrow> None
      | c # cs \<Rightarrow>
          if c = CHR ''-'' then map_option (\<lambda>n. - int n) (py_digits cs)
          else if c = CHR ''+'' then map_option int (py_digits cs)
          else map_option int (py_digits (c # cs)))"

section \<open>The world the programs run in\<close>

text \<open>
  The external programs are collaborators reached through \<open>subprocess.run\<close>. A command
  is recorded by what it is run on rather than by its shell text.
\<close>

datatype command =
    Cdparanoia path
  | Ffmpeg path path
  | Mid3v2 "string option" "string option" "string option" "string option" "string option"
      "int option" path

text \<open>
  What a run does besides changing files, in order: \<open>Input p\<close> is \<open>input(p)\<close> showing
  its prompt and waiting for a line, \<open>Print\<close> is \<open>print\<close>, \<open>Log_debug\<close> and
  \<open>Log_info_move\<close> are the two logging calls of the ripping module, \<open>Run\<close> is an external
  program started, and \<open>Move\<close> is a \<open>shutil.move\<close> carried out.
\<close>

datatype event =
    Input string
  | Print string
  | Log_debug command
  | Log_info_move path path
  | Run command
  | Move path path

text \<open>
  The parsed configuration file. A key absent from the JSON object is \<open>None\<close>; the
  values present are strings, and \<open>songs\<close> is a list of strings.
\<close>

record album_metadata =
  meta_artist :: "string option"
  meta_album :: "string option"
  meta_genre :: "string option"
  meta_date :: "string option"
  meta_songs :: "string list option"

text \<open>
  What \<open>json.load\<close> returns: an object, or any other JSON value. Of an array only the
  items that are strings are kept, since all the code does with it is look for a key
  among its items; \<open>JOther\<close> is a number, \<open>true\<close>, \<open>false\<close> or \<open>null\<close>.
\<close>

datatype json_value =
    JObject album_metadata
  | JArray "string list"
  | JString string
  | JOther

text \<open>
  What an external program does when it is run, as far as the code can tell: whether it
  leaves with status zero, whether it leaves its output file behind when it does not,
  and how many lines it takes from the standard input it inherits.
\<close>

record program_outcome =
  exit_zero :: bool
  output_left :: bool
  lines_taken :: nat

text \<open>
  \<^item> \<open>files\<close>: the file system; contents of files are not modelled.
  \<^item> \<open>stdin\<close>: the lines the operator will type; at its end \<open>input\<close> raises \<open>EOFError\<close>.
  \<^item> \<open>trace\<close>: the events so far.
  \<^item> \<open>drive\<close>: what the successive runs of the disc ripper will do: \<open>Some names\<close>
    deposits one file per name in the target directory, \<open>None\<close> (or no entry left) is a
    ripper that fails and deposits nothing.
  \<^item> \<open>programs\<close>: the outcome of each external command that does not behave in the
    default way, which is to leave with status zero and to read nothing.
  \<^item> \<open>json_files\<close>: for each file that holds valid JSON, the value it holds.
  \<^item> \<open>temp\<close>: the directory \<open>tempfile.TemporaryDirectory()\<close> will create next, a path
    that does not exist yet.
  \<^item> \<open>pwd\<close>: the environment variable \<open>PWD\<close>, an absolute path, or \<open>None\<close> when unset.
\<close>

record world =
  files :: filesystem
  stdin :: "string list"
  trace :: "event list"
  drive :: "string list option list"
  programs :: "(command \<times> program_outcome) list"
  json_files :: "(path \<times> json_value) list"
  temp :: path
  pwd :: "path option"

definition emit :: "event \<Rightarrow> world \<Rightarrow> world" where
  "emit e w = w\<lparr>trace := trace w @ [e]\<rparr>"

definition outcome_of :: "command \<Rightarrow> world \<Rightarrow> program_outcome" where
  "outcome_of c w =
     (case map_of (programs w) c of
        None \<Rightarrow> \<lparr>exit_zero = True, output_left = True, lines_taken = 0\<rparr>
      | Some outcome \<Rightarrow> outcome)"

definition run_program :: "command \<Rightarrow> world \<Rightarrow> world" where
  \<comment> \<open>\<open>subprocess.run(command, shell=True, ...)\<close>, its status apart: the program is
      started, and it takes the lines it takes from the standard input\<close>
  "run_program c w =
     (emit (Run c) w)\<lparr>stdin := drop (lines_taken (outcome_of c w)) (stdin w)\<rparr>"

definition input :: "string \<Rightarrow> world \<Rightarrow> (error + string) \<times> world" where
  "input prompt w =
     (case stdin w of
        [] \<Rightarrow> (Inl EOFError, emit (Input prompt) w)
      | l # ls \<Rightarrow> (Inr l, emit (Input prompt) (w\<lparr>stdin := ls\<rparr>)))"

definition path_str :: "path \<Rightarrow> string" where
  \<comment> \<open>\<open>str(p)\<close> of an absolute path\<close>
  "path_str p = (if p = [] then ''/'' else concat (map (\<lambda>c. CHR ''/'' # c) p))"

definition write_file :: "path \<Rightarrow> filesystem \<Rightarrow> filesystem" where
  \<comment> \<open>A program writes a file: a new entry is listed last, an existing one stays in place.\<close>
  "write_file p fs = (if path_exists p fs then fs else fs @ [(p, File)])"

definition below :: "path \<Rightarrow> path \<Rightarrow> bool" where
  \<comment> \<open>\<open>p\<close> is \<open>d\<close> or lies inside \<open>d\<close>\<close>
  "below d p = (take (length d) p = d)"

section \<open>The ripping module\<close>

text \<open>
  The shell command is \<open>cd folder; cdparanoia -XB; cd $PWD\<close>, so the status that
  \<open>check=True\<close> looks at is the status of the last \<open>cd\<close>: a ripper that fails raises
  nothing, and a \<open>PWD\<close> that is no directory raises after the rip. With \<open>PWD\<close> unset the
  command ends in \<open>cd None\<close>, relative to the folder.
\<close>

definition rip_cd_to_folder :: "path \<Rightarrow> world \<Rightarrow> (error + unit) \<times> world" where
  "rip_cd_to_folder folder w =
     (if \<not> is_dir folder (files w) then (Inl (FileNotFoundError folder), w)
      else
        let w1 = run_program (Cdparanoia folder) (emit (Log_debug (Cdparanoia folder)) w);
            w2 = (case drive w1 of
                    [] \<Rightarrow> w1
                  | None # ds \<Rightarrow> w1\<lparr>drive := ds\<rparr>
                  | Some names # ds \<Rightarrow>
                      w1\<lparr>drive := ds,
                         files := foldl (\<lambda>fs nm. write_file (folder @ [nm]) fs) (files w1) names\<rparr>);
            back = (case pwd w2 of None \<Rightarrow> folder @ [''None''] | Some p \<Rightarrow> p)
        in if is_dir back (files w2) then (Inr (), w2) else (Inl CalledProcessError, w2))"

text \<open>
  \<open>shutil.move(src, dst)\<close> within one file system: a destination that is a directory
  receives the source under its own name, and refuses when that name is taken; any
  other destination is replaced by the source.
\<close>

definition rename_tree :: "path \<Rightarrow> path \<Rightarrow> filesystem \<Rightarrow> filesystem" where
  "rename_tree src dst fs =
     map (\<lambda>(p, k). if below src p then (dst @ drop (length src) p, k) else (p, k))
       (filter (\<lambda>(p, k). \<not> below dst p) fs)"

definition shutil_move :: "path \<Rightarrow> path \<Rightarrow> world \<Rightarrow> (error + unit) \<times> world" where
  "shutil_move src dst w =
     (let fs = files w;
          real_dst = (if is_dir dst fs then dst @ [path_name src] else dst)
      in if is_dir dst fs \<and> path_exists real_dst fs then (Inl (ShutilError real_dst), w)
         else if \<not> path_exists src fs then (Inl (FileNotFoundError src), w)
         else if is_dir src fs \<and> is_file real_dst fs then (Inl (FileExistsError real_dst), w)
         else if \<not> is_dir (parent real_dst) fs then (Inl (FileNotFoundError real_dst), w)
         else (Inr (), emit (Move src dst) (w\<lparr>files := rename_tree src real_dst fs\<rparr>)))"

definition track_file_name :: "string \<Rightarrow> int \<Rightarrow> string" where
  \<comment> \<open>\<open>f"{prefix}{'0' if number < 10 else ''}{number}.wav"\<close>\<close>
  "track_file_name prefix number =
     prefix @ (if number < 10 then ''0'' else []) @ py_str number @ ''.wav''"

fun move_loop ::
  "path list \<Rightarrow> path \<Rightarrow> int \<Rightarrow> string \<Rightarrow> bool \<Rightarrow> world \<Rightarrow> (error + unit) \<times> world" where
  "move_loop [] raw initial_index prefix mock_run w = (Inr (), w)"
| "move_loop (file # rest) raw initial_index prefix mock_run w =
     (let name = takeWhile (\<lambda>c. c \<noteq> CHR ''.'') (stem file) in
      case py_int (take 2 (drop 5 name)) of
        None \<Rightarrow> (Inl (ValueError_int (take 2 (drop 5 name))), w)
      | Some k \<Rightarrow>
          let number = k + initial_index;
              target = raw @ [track_file_name prefix number]
          in if mock_run
             then move_loop rest raw initial_index prefix mock_run
                    (emit (Log_info_move file target) w)
             else (case shutil_move file target w of
                     (Inl e, w') \<Rightarrow> (Inl e, w')
                   | (Inr _, w') \<Rightarrow> move_loop rest raw initial_index prefix mock_run w'))"

definition move_wav_files_to_album ::
  "path \<Rightarrow> path \<Rightarrow> int \<Rightarrow> string \<Rightarrow> bool \<Rightarrow> world \<Rightarrow> (error + int) \<times> world" where
  "move_wav_files_to_album wav album_path initial_index prefix mock_run w =
     (case iterdir wav (files w) of
        Inl e \<Rightarrow> (Inl e, w)
      | Inr entries \<Rightarrow>
          (case move_loop entries (album_path @ [''raw'']) initial_index prefix mock_run w of
             (Inl e, w') \<Rightarrow> (Inl e, w')
           | (Inr _, w') \<Rightarrow>
               (case iterdir wav (files w') of
                  Inl e \<Rightarrow> (Inl e, w')
                | Inr remaining \<Rightarrow> (Inr (int (length remaining)), w'))))"

definition mkdir_exist_ok :: "path \<Rightarrow> world \<Rightarrow> (error + unit) \<times> world" where
  \<comment> \<open>\<open>Path.mkdir(exist_ok=True)\<close>\<close>
  "mkdir_exist_ok p w =
     (if is_dir p (files w) then (Inr (), w)
      else if path_exists p (files w) then (Inl (FileExistsError p), w)
      else if is_file (parent p) (files w) then (Inl (NotADirectoryError p), w)
      else if \<not> is_dir (parent p) (files w) then (Inl (FileNotFoundError p), w)
      else (Inr (), w\<lparr>files := files w @ [(p, Dir)]\<rparr>))"

definition disc_prefix :: "int \<Rightarrow> string" where
  \<comment> \<open>\<open>f"cd0{n}track" if n < 9 else f"cd{n}track"\<close>\<close>
  "disc_prefix n =
     (if n < 9 then ''cd0'' @ py_str n @ ''track'' else ''cd'' @ py_str n @ ''track'')"

fun disc_loop ::
  "int list \<Rightarrow> path \<Rightarrow> path \<Rightarrow> bool \<Rightarrow> int \<Rightarrow> world \<Rightarrow> (error + int) \<times> world" where
  "disc_loop [] temp_dir folder mock_run track_num w = (Inr track_num, w)"
| "disc_loop (n # ns) temp_dir folder mock_run track_num w =
     (case input (''Load CD '' @ py_str n @ '', then press <Enter>:'') w of
        (Inl e, w1) \<Rightarrow> (Inl e, w1)
      | (Inr _, w1) \<Rightarrow>
          (case rip_cd_to_folder temp_dir w1 of
             (Inl e, w2) \<Rightarrow> (Inl e, w2)
           | (Inr _, w2) \<Rightarrow>
               (case move_wav_files_to_album temp_dir folder track_num (disc_prefix n)
                       mock_run w2 of
                  (Inl e, w3) \<Rightarrow> (Inl e, w3)
                | (Inr moved, w3) \<Rightarrow>
                    disc_loop ns temp_dir folder mock_run (track_num + moved) w3)))"

text \<open>
  The temporary directory is created before the loop and removed with everything in
  it when the \<open>with\<close> block is left, also when it is left by an exception.
\<close>

definition rip_album_from_cd :: "path \<Rightarrow> int \<Rightarrow> bool \<Rightarrow> world \<Rightarrow> (error + unit) \<times> world" where
  "rip_album_from_cd folder cd_count mock_run w =
     (case mkdir_exist_ok (folder @ [''raw'']) w of
        (Inl e, w1) \<Rightarrow> (Inl e, w1)
      | (Inr _, w1) \<Rightarrow>
          let temp_dir = temp w1;
              w2 = w1\<lparr>files := files w1 @ [(temp_dir, Dir)]\<rparr>
          in (case disc_loop [1 .. cd_count] temp_dir folder mock_run 0 w2 of
                (r, w3) \<Rightarrow>
                  (map_sum id (\<lambda>_. ()) r,
                   w3\<lparr>files := filter (\<lambda>(p, k). \<not> below temp_dir p) (files w3)\<rparr>)))"

text \<open>The moves carried out and the moves a dry run logged, as (source, destination).\<close>

fun moves_of :: "event list \<Rightarrow> (path \<times> path) list" where
  "moves_of [] = []"
| "moves_of (Move src dst # es) = (src, dst) # moves_of es"
| "moves_of (e # es) = moves_of es"

fun logged_moves_of :: "event list \<Rightarrow> (path \<times> path) list" where
  "logged_moves_of [] = []"
| "logged_moves_of (Log_info_move src dst # es) = (src, dst) # logged_moves_of es"
| "logged_moves_of (e # es) = logged_moves_of es"

section \<open>The album pipeline\<close>

definition load_album_config_file :: "path \<Rightarrow> world \<Rightarrow> error + json_value" where
  \<comment> \<open>\<open>json_file.open('r')\<close>, then \<open>json.load\<close>\<close>
  "load_album_config_file json_file w =
     (if is_dir json_file (files w) then Inl (IsADirectoryError json_file)
      else if \<not> is_file json_file (files w) then Inl (FileNotFoundError json_file)
      else (case map_of (json_files w) json_file of
              None \<Rightarrow> Inl (JSONDecodeError json_file)
            | Some album_metadata \<Rightarrow> Inr album_metadata))"

text \<open>
  Lines 190 to 192: \<open>kwargs[key] = album_metadata[key] if key in album_metadata else None\<close>
  for the four tag keys. On an object this reads the four fields. On an array or a string
  \<open>key in album_metadata\<close> is a membership or substring test, and when it holds the
  subscript with a string raises \<open>TypeError\<close>; on any other value the test itself does.
\<close>

definition metadata_kwargs :: "json_value \<Rightarrow> error + album_metadata" where
  "metadata_kwargs album_metadata =
     (let no_fields = \<lparr>meta_artist = None, meta_album = None, meta_genre = None,
                       meta_date = None, meta_songs = None\<rparr>;
          keys = [''artist'', ''album'', ''genre'', ''date'']
      in case album_metadata of
           JObject obj \<Rightarrow> Inr obj
         | JArray items \<Rightarrow>
             if list_ex (\<lambda>key. key \<in> set items) keys then Inl TypeError_subscript
             else Inr no_fields
         | JString s \<Rightarrow>
             if list_ex (\<lambda>key. py_in key s) keys then Inl TypeError_subscript
             else Inr no_fields
         | JOther \<Rightarrow> Inl TypeError_subscript)"

definition json_songs :: "json_value \<Rightarrow> error + string list" where
  \<comment> \<open>\<open>album_metadata['songs']\<close>\<close>
  "json_songs album_metadata =
     (case album_metadata of
        JObject obj \<Rightarrow>
          (case meta_songs obj of None \<Rightarrow> Inl (KeyError ''songs'') | Some t \<Rightarrow> Inr t)
      | _ \<Rightarrow> Inl TypeError_subscript)"

definition invalid_answer :: string where
  \<comment> \<open>the text \<open>Error: input 'y' or 'N'\<close>\<close>
  "invalid_answer =
     ''Error: input '' @ [CHR 0x27] @ ''y'' @ [CHR 0x27] @ '' or '' @ [CHR 0x27] @ ''N'' @ [CHR 0x27]"

text \<open>
  The \<open>while True\<close> loop of the overwrite confirmation, over the lines still to be read.
  It returns whether to overwrite, the lines left, and the events of the prompting.
\<close>

fun overwrite_loop :: "string \<Rightarrow> string list \<Rightarrow> (error + bool) \<times> string list \<times> event list" where
  "overwrite_loop prompt [] = (Inl EOFError, [], [Input prompt])"
| "overwrite_loop prompt (ans # rest) =
     (if ans = ''y'' then (Inr True, rest, [Input prompt])
      else if ans = ''N'' then (Inr False, rest, [Input prompt])
      else (case overwrite_loop prompt rest of
              (r, rest', evs) \<Rightarrow> (r, rest', Input prompt # Print invalid_answer # evs)))"

text \<open>
  Lines 66 to 72 of \<open>wav_to_mp3\<close>: the transcoder is run. When it leaves with status zero
  the output path exists afterwards: a missing output file has been created, and an
  entry that was there is still listed (whether the transcoder wrote over it or left it
  alone is a matter of its content, which is not modelled).
\<close>

definition transcode :: "path \<Rightarrow> path \<Rightarrow> bool \<Rightarrow> world \<Rightarrow> (error + path) \<times> world" where
  "transcode wav_file mp3_file keep_wav w =
     (let c = Ffmpeg wav_file mp3_file;
          w1 = run_program c w;
          w2 = w1\<lparr>files := write_file mp3_file (files w1)\<rparr>
      in if \<not> exit_zero (outcome_of c w)
         then (Inl CalledProcessError, if output_left (outcome_of c w) then w2 else w1)
         else if is_file mp3_file (files w2) \<and> \<not> keep_wav
         then (Inr mp3_file, w2\<lparr>files := filter (\<lambda>(p, k). p \<noteq> wav_file) (files w2)\<rparr>)
         else (Inr mp3_file, w2))"

definition wav_to_mp3 :: "path \<Rightarrow> bool \<Rightarrow> path option \<Rightarrow> world \<Rightarrow> (error + path) \<times> world" where
  "wav_to_mp3 wav_file keep_wav output_dir w =
     (if \<not> is_file wav_file (files w) then (Inl (FileNotFoundError wav_file), w)
      else
        let out = (case output_dir of None \<Rightarrow> parent wav_file | Some d \<Rightarrow> d) in
        if \<not> is_dir out (files w) then (Inl (FileNotFoundError out), w)
        else
          let mp3_file = out @ [stem wav_file @ ''.mp3''] in
          if is_file mp3_file (files w)
          then (case overwrite_loop (path_str mp3_file @ '' exists. Overwrite? [y/N]: '')
                       (stdin w) of
                  (Inl e, rest, evs) \<Rightarrow> (Inl e, w\<lparr>stdin := rest, trace := trace w @ evs\<rparr>)
                | (Inr False, rest, evs) \<Rightarrow>
                    (Inr mp3_file, w\<lparr>stdin := rest, trace := trace w @ evs\<rparr>)
                | (Inr True, rest, evs) \<Rightarrow>
                    transcode wav_file mp3_file keep_wav
                      (w\<lparr>stdin := rest, trace := trace w @ evs\<rparr>))
          else transcode wav_file mp3_file keep_wav w)"

definition add_metadata ::
  "path \<Rightarrow> string option \<Rightarrow> string option \<Rightarrow> string option \<Rightarrow> string option
     \<Rightarrow> string option \<Rightarrow> int option \<Rightarrow> world \<Rightarrow> (error + unit) \<times> world" where
  "add_metadata mp3_file artist album title genre date track_num w =
     (if \<not> is_file mp3_file (files w) then (Inl (FileNotFoundError mp3_file), w)
      else
        let c = Mid3v2 artist album title genre date track_num mp3_file;
            w1 = run_program c w
        in if exit_zero (outcome_of c w) then (Inr (), w1) else (Inl CalledProcessError, w1))"

definition resolve_config :: "path \<Rightarrow> path option \<Rightarrow> filesystem \<Rightarrow> error + path" where
  \<comment> \<open>lines 177 to 186 of \<open>populate_album_metadata\<close>\<close>
  "resolve_config album_directory config_json fs =
     (case config_json of
        None \<Rightarrow>
          (case iterdir album_directory fs of
             Inl e \<Rightarrow> Inl e
           | Inr entries \<Rightarrow>
               (case filter (\<lambda>f. suffix f = ''.json'') entries of
                  [] \<Rightarrow> Inl (FileNotFoundError_no_config album_directory)
                | f # _ \<Rightarrow> Inr f))
      | Some c \<Rightarrow> if \<not> is_file c fs then Inl (FileNotFoundError c) else Inr c)"

fun convert_wav_files :: "path list \<Rightarrow> path option \<Rightarrow> world \<Rightarrow> (error + unit) \<times> world" where
  \<comment> \<open>the loop of step (2)\<close>
  "convert_wav_files [] output_directory w = (Inr (), w)"
| "convert_wav_files (wav_file # rest) output_directory w =
     (if suffix wav_file = ''.wav''
      then (case wav_to_mp3 wav_file True output_directory w of
              (Inl e, w') \<Rightarrow> (Inl e, w')
            | (Inr _, w') \<Rightarrow> convert_wav_files rest output_directory w')
      else convert_wav_files rest output_directory w)"

fun tag_files ::
  "(string \<times> path) list \<Rightarrow> album_metadata \<Rightarrow> int \<Rightarrow> world \<Rightarrow> (error + unit) \<times> world" where
  \<comment> \<open>the loop of step (4)\<close>
  "tag_files [] kwargs track_num w = (Inr (), w)"
| "tag_files ((title, mp3_file) # rest) kwargs track_num w =
     (case add_metadata mp3_file (meta_artist kwargs) (meta_album kwargs) (Some title)
             (meta_genre kwargs) (meta_date kwargs) (Some track_num) w of
        (Inl e, w') \<Rightarrow> (Inl e, w')
      | (Inr _, w') \<Rightarrow> tag_files rest kwargs (track_num + 1) w')"

text \<open>
  The pipeline in its parts: argument checking and the choice of the configuration
  file; step (1), which loads it; step (2), which converts; steps (3) and (4), which
  match and tag.
\<close>

definition read_config ::
  "path \<Rightarrow> world \<Rightarrow> (error + json_value \<times> album_metadata) \<times> world" where
  \<comment> \<open>lines 188 to 192\<close>
  "read_config config w =
     (let w1 = emit (Print (''(1) Loading album metadata from '' @ path_str config)) w in
      case load_album_config_file config w1 of
        Inl e \<Rightarrow> (Inl e, w1)
      | Inr album_metadata \<Rightarrow>
          (case metadata_kwargs album_metadata of
             Inl e \<Rightarrow> (Inl e, w1)
           | Inr kwargs \<Rightarrow> (Inr (album_metadata, kwargs), w1)))"

definition load_stage ::
  "path \<Rightarrow> path option \<Rightarrow> world \<Rightarrow> (error + json_value \<times> album_metadata) \<times> world" where
  \<comment> \<open>lines 173 to 192\<close>
  "load_stage album_directory config_json w =
     (if \<not> is_dir album_directory (files w) then (Inl (FileNotFoundError album_directory), w)
      else (case resolve_config album_directory config_json (files w) of
              Inl e \<Rightarrow> (Inl e, w)
            | Inr config \<Rightarrow> read_config config w))"

definition convert_stage :: "path \<Rightarrow> path option \<Rightarrow> world \<Rightarrow> (error + unit) \<times> world" where
  "convert_stage album_directory output_directory w =
     (let w1 = emit (Print ''(2) Converting .wav files to .mp3'') w in
      case iterdir album_directory (files w1) of
        Inl e \<Rightarrow> (Inl e, w1)
      | Inr entries \<Rightarrow> convert_wav_files entries output_directory w1)"

definition tag_stage ::
  "path \<Rightarrow> json_value \<Rightarrow> album_metadata \<Rightarrow> world \<Rightarrow> (error + unit) \<times> world" where
  "tag_stage album_directory album_metadata kwargs w =
     (let w1 = emit (Print ''(3) Attempting to match metadata song titles with files'') w in
      case json_songs album_metadata of
        Inl e \<Rightarrow> (Inl e, w1)
      | Inr title_list \<Rightarrow>
          (case match_titles_to_files title_list album_directory (files w1) of
             Inl e \<Rightarrow> (Inl e, w1)
           | Inr mapping \<Rightarrow>
               tag_files mapping kwargs 1
                 (emit (Print ''(4) Adding metadata to .mp3 files'') w1)))"

definition populate_album_metadata ::
  "path \<Rightarrow> path option \<Rightarrow> path option \<Rightarrow> world \<Rightarrow> (error + unit) \<times> world" where
  "populate_album_metadata album_directory config_json output_directory w =
     (case load_stage album_directory config_json w of
        (Inl e, w1) \<Rightarrow> (Inl e, w1)
      | (Inr (album_metadata, kwargs), w1) \<Rightarrow>
          (case convert_stage album_directory output_directory w1 of
             (Inl e, w2) \<Rightarrow> (Inl e, w2)
           | (Inr _, w2) \<Rightarrow> tag_stage album_directory album_metadata kwargs w2))"

text \<open>
  Lines 188 to 208 on their own: the pipeline from the point where the configuration
  file has been chosen.
\<close>

definition run_from_config ::
  "path \<Rightarrow> path \<Rightarrow> path option \<Rightarrow> world \<Rightarrow> (error + unit) \<times> world" where
  "run_from_config config album_directory output_directory w =
     (case read_config config w of
        (Inl e, w1) \<Rightarrow> (Inl e, w1)
      | (Inr (album_metadata, kwargs), w1) \<Rightarrow>
          (case convert_stage album_directory output_directory w1 of
             (Inl e, w2) \<Rightarrow> (Inl e, w2)
           | (Inr _, w2) \<Rightarrow> tag_stage album_directory album_metadata kwargs w2))"

fun tagger_runs :: "event list \<Rightarrow> command list" where
  \<comment> \<open>the tagger invocations of a trace\<close>
  "tagger_runs [] = []"
| "tagger_runs (Run (Mid3v2 a b c d e f p) # es) = Mid3v2 a b c d e f p # tagger_runs es"
| "tagger_runs (e # es) = tagger_runs es"

definition reprompts :: "string \<Rightarrow> nat \<Rightarrow> event list" where
  \<comment> \<open>what \<open>n\<close> unrecognised answers leave in the trace: the prompt and the complaint, \<open>n\<close> times\<close>
  "reprompts prompt n = concat (replicate n [Input prompt, Print invalid_answer])"

text \<open>
  The numbering the specification asks for, to compare the file names with: a number
  below ten is written with a leading zero, any other as it is.
\<close>

definition pad2 :: "int \<Rightarrow> string" where
  "pad2 k = (if k < 10 then ''0'' @ py_str k else py_str k)"

section \<open>Properties of the track matcher\<close>

lemma filter_single_length:
  assumes "filter P xs = [f]"
  shows "length (filter (\<lambda>m. m \<noteq> f) xs) + 1 = length xs"
proof -
  have "f \<in> set (filter P xs)" using assms by simp
  then have pf: "P f" by simp
  have "filter (\<lambda>x. x = f) xs = filter (\<lambda>x. x = f) (filter P xs)"
    using pf by (auto intro: filter_cong)
  then have "length (filter (\<lambda>x. x = f) xs) = 1" using assms by simp
  moreover have "length (filter (\<lambda>x. x = f) xs) + length (filter (\<lambda>x. \<not> x = f) xs) = length xs"
    by (rule sum_length_filter_compl)
  ultimately show ?thesis by simp
qed

lemma filter_single_set:
  assumes "filter P xs = [f]"
  shows "set xs = insert f (set (filter (\<lambda>m. m \<noteq> f) xs))"
proof -
  have "f \<in> set (filter P xs)" using assms by simp
  then have "f \<in> set xs" by simp
  then show ?thesis by auto
qed

text \<open>
  The loop invariant: from any point of the run at which the remaining titles are
  uniquely matchable against the remaining files, the loop finishes, and what it adds
  to the mapping pairs the remaining titles, in processing order, with all the
  remaining files, each once.
\<close>

lemma match_loop_unique:
  "uniquely_matchable ts remaining \<Longrightarrow> length ts = n - k \<Longrightarrow> k \<le> n \<Longrightarrow>
   length remaining = length ts \<Longrightarrow>
   \<exists>claimed. match_loop n (zip [k ..< n] ts) remaining mapping = Inr (mapping @ claimed)
     \<and> map fst claimed = ts \<and> distinct (map snd claimed)
     \<and> set (map snd claimed) = set remaining"
proof (induction ts arbitrary: k remaining mapping)
  case Nil
  then show ?case by simp
next
  case (Cons t ts)
  from Cons.prems(2) have kn: "k < n" and len: "length ts = n - Suc k" by auto
  have tn: "int n - int k = int (Suc (length ts))" using Cons.prems(2) kn by simp
  from Cons.prems(1) obtain f where
    f: "filter (matches_track (int (Suc (length ts))) t) remaining = [f]"
    and rest: "uniquely_matchable ts (removeAll f remaining)"
    by (auto split: list.splits)
  let ?rem = "filter (\<lambda>m. m \<noteq> f) remaining"
  have rem_eq: "removeAll f remaining = ?rem"
    by (induction remaining) auto
  have lrem: "length ?rem = length ts"
    using filter_single_length [OF f] Cons.prems(4) by simp
  from Cons.IH [OF _ len _ , of ?rem "mapping @ [(t, f)]"] rest rem_eq lrem kn
  obtain claimed where
    c: "match_loop n (zip [Suc k ..< n] ts) ?rem (mapping @ [(t, f)])
          = Inr ((mapping @ [(t, f)]) @ claimed)"
       "map fst claimed = ts" "distinct (map snd claimed)" "set (map snd claimed) = set ?rem"
    by auto
  have step: "match_loop n (zip [k ..< n] (t # ts)) remaining mapping
        = match_loop n (zip [Suc k ..< n] ts) ?rem (mapping @ [(t, f)])"
    using kn f tn by (simp add: upt_conv_Cons Let_def)
  show ?case
  proof (intro exI conjI)
    show "match_loop n (zip [k ..< n] (t # ts)) remaining mapping
            = Inr (mapping @ ((t, f) # claimed))"
      using step c(1) by simp
    show "map fst ((t, f) # claimed) = t # ts" using c(2) by simp
    show "distinct (map snd ((t, f) # claimed))" using c(3) c(4) by simp
    show "set (map snd ((t, f) # claimed)) = set remaining"
    proof -
      have "set (map snd ((t, f) # claimed)) = insert f (set (map snd claimed))" by simp
      also have "\<dots> = insert f (set ?rem)" by (simp only: c(4))
      also have "\<dots> = set remaining" by (rule filter_single_set [OF f, symmetric])
      finally show ?thesis .
    qed
  qed
qed

text \<open>
  C3. When the directory holds as many music files as there are titles and, going from
  the last title to the first, every title is matched (by its track number or its text)
  by exactly one file still unclaimed, the matcher succeeds: it returns one pair per
  title, in title order, the files are pairwise distinct and they are all the music
  files of the directory, so titles and files are in bijection.
\<close>

theorem match_unique_bijection:
  assumes "is_dir directory fs"
      and "length title_list = length (music_files_of (children directory fs))"
      and "uniquely_matchable (rev title_list) (music_files_of (children directory fs))"
  shows "\<exists>mapping. match_titles_to_files title_list directory fs = Inr mapping
           \<and> length mapping = length title_list
           \<and> map fst mapping = title_list
           \<and> distinct (map snd mapping)
           \<and> set (map snd mapping) = set (music_files_of (children directory fs))"
proof -
  define mf where "mf = music_files_of (children directory fs)"
  define n where "n = length title_list"
  have um: "uniquely_matchable (rev title_list) mf" using assms(3) by (simp only: mf_def)
  have l1: "length (rev title_list) = n - 0" by (simp add: n_def)
  have l2: "(0::nat) \<le> n" by simp
  have l3: "length mf = length (rev title_list)" using assms(2) by (simp only: mf_def length_rev)
  from match_loop_unique [OF um l1 l2 l3, of "[]"]
  obtain claimed where
    c1: "match_loop n (zip [0 ..< n] (rev title_list)) mf [] = Inr ([] @ claimed)"
    and c2: "map fst claimed = rev title_list"
    and c3: "distinct (map snd claimed)"
    and c4: "set (map snd claimed) = set mf"
    by blast
  have it: "iterdir directory fs = Inr (children directory fs)"
    using assms(1) by (simp add: iterdir_def)
  have lm: "length claimed = n"
  proof -
    have "length (map fst claimed) = length (rev title_list)" by (simp only: c2)
    then show ?thesis by (simp add: n_def)
  qed
  have res: "match_titles_to_files title_list directory fs = Inr (rev claimed)"
    unfolding match_titles_to_files_def it Let_def
    using c1 l3 by (simp add: mf_def [symmetric] n_def [symmetric])
  have m1: "map fst (rev claimed) = title_list"
    using c2 by (simp add: rev_map [symmetric])
  have m2: "distinct (map snd (rev claimed))"
    using c3 by (simp add: rev_map [symmetric])
  have m3: "set (map snd (rev claimed)) = set mf"
    using c4 by (simp add: rev_map [symmetric])
  show ?thesis
    unfolding mf_def [symmetric]
    using res lm m1 m2 m3 by (simp add: n_def)
qed

theorem match_unique_bijection_witness:
  "\<exists>mapping.
      match_titles_to_files [''Overture'', ''Finale''] [''album'']
        [([''album''], Dir), ([''album'', ''Finale.mp3''], File),
         ([''album'', ''notes.txt''], File), ([''album'', ''track01.mp3''], File)] = Inr mapping
      \<and> length mapping = 2
      \<and> map fst mapping = [''Overture'', ''Finale'']
      \<and> distinct (map snd mapping)
      \<and> set (map snd mapping) = {[''album'', ''Finale.mp3''], [''album'', ''track01.mp3'']}"
proof -
  let ?fs = "[([''album''], Dir), ([''album'', ''Finale.mp3''], File),
              ([''album'', ''notes.txt''], File), ([''album'', ''track01.mp3''], File)]"
  have mf: "music_files_of (children [''album''] ?fs)
              = [[''album'', ''Finale.mp3''], [''album'', ''track01.mp3'']]"
    by code_simp
  have h1: "is_dir [''album''] ?fs" by code_simp
  have h2: "length [''Overture'', ''Finale''] = length (music_files_of (children [''album''] ?fs))"
    by (simp only: mf) simp
  have h3: "uniquely_matchable (rev [''Overture'', ''Finale''])
              (music_files_of (children [''album''] ?fs))"
    by code_simp
  from match_unique_bijection [OF h1 h2 h3] obtain mapping where
    m: "match_titles_to_files [''Overture'', ''Finale''] [''album''] ?fs = Inr mapping
      \<and> length mapping = length [''Overture'', ''Finale'']
      \<and> map fst mapping = [''Overture'', ''Finale'']
      \<and> distinct (map snd mapping)
      \<and> set (map snd mapping) = set (music_files_of (children [''album''] ?fs))"
    by (rule exE)
  note m1 = m [THEN conjunct1]
  note m2 = m [THEN conjunct2, THEN conjunct1]
  note m3 = m [THEN conjunct2, THEN conjunct2, THEN conjunct1]
  note m4 = m [THEN conjunct2, THEN conjunct2, THEN conjunct2, THEN conjunct1]
  note m5 = m [THEN conjunct2, THEN conjunct2, THEN conjunct2, THEN conjunct2]
  have l: "length mapping = 2" using m2 by simp
  have s: "set (map snd mapping) = {[''album'', ''Finale.mp3''], [''album'', ''track01.mp3'']}"
    unfolding m5 mf by (simp only: list.set)
  show ?thesis
    by (rule exI [of _ mapping]) (intro conjI m1 l m3 m4 s)
qed

text \<open>
  C6. When the number of titles differs from the number of music files in the
  directory, the matcher returns the count-mismatch error carrying both counts. The
  result does not depend on the file names or the titles: no candidate is examined and
  no mapping, partial or other, is returned.
\<close>

theorem count_mismatch:
  assumes "is_dir directory fs"
      and "length title_list \<noteq> length (music_files_of (children directory fs))"
  shows "match_titles_to_files title_list directory fs
           = Inl (ValueError_count (length (music_files_of (children directory fs)))
                    (length title_list))"
  using assms by (simp add: match_titles_to_files_def iterdir_def Let_def)

theorem count_mismatch_witness:
  "match_titles_to_files [''Song''] [''album'']
     [([''album''], Dir), ([''album'', ''1-Song.wav''], File), ([''album'', ''2-Other.wav''], File)]
   = Inl (ValueError_count 2 1)"
proof -
  let ?fs = "[([''album''], Dir), ([''album'', ''1-Song.wav''], File),
              ([''album'', ''2-Other.wav''], File)]"
  have mf: "music_files_of (children [''album''] ?fs)
              = [[''album'', ''1-Song.wav''], [''album'', ''2-Other.wav'']]"
    by code_simp
  have h1: "is_dir [''album''] ?fs" by code_simp
  have h2: "length [''Song''] \<noteq> length (music_files_of (children [''album''] ?fs))"
    by (simp only: mf) simp
  from count_mismatch [OF h1 h2] show ?thesis
    by (simp only: mf) simp
qed

text \<open>
  C9. The scenario of the specification: for the titles "Intro" and "Main Theme" and a
  directory holding \<open>cd01track01.wav\<close> and \<open>02-Main-Theme.wav\<close>, in either listing order,
  the matcher returns "Intro" with the first file and "Main Theme" with the second.
\<close>

theorem scenario_intro_main_theme:
  "match_titles_to_files [''Intro'', ''Main Theme''] [''album'']
     [([''album''], Dir), ([''album'', ''cd01track01.wav''], File),
      ([''album'', ''02-Main-Theme.wav''], File)]
   = Inr [(''Intro'', [''album'', ''cd01track01.wav'']),
          (''Main Theme'', [''album'', ''02-Main-Theme.wav''])]
   \<and>
   match_titles_to_files [''Intro'', ''Main Theme''] [''album'']
     [([''album''], Dir), ([''album'', ''02-Main-Theme.wav''], File),
      ([''album'', ''cd01track01.wav''], File)]
   = Inr [(''Intro'', [''album'', ''cd01track01.wav'']),
          (''Main Theme'', [''album'', ''02-Main-Theme.wav''])]"
  by code_simp

text \<open>
  Whenever more than one music file matches the last title, which is the first to be
  processed, the matcher ends in the \<open>TypeError\<close> of the message it tries to build.
\<close>

lemma ambiguous_last_title:
  assumes "is_dir directory fs"
      and "title_list \<noteq> []"
      and "length title_list = length (music_files_of (children directory fs))"
      and "1 < length (filter (matches_track (int (length title_list)) (last title_list))
                        (music_files_of (children directory fs)))"
  shows "match_titles_to_files title_list directory fs = Inl TypeError_join"
proof -
  let ?n = "length title_list"
  have r: "rev title_list = last title_list # rev (butlast title_list)"
    using assms(2) by (metis append_butlast_last_id rev.simps(2) rev_append rev_rev_ident
        append_Nil rev.simps(1) append_Cons)
  have n: "[0 ..< ?n] = 0 # [Suc 0 ..< ?n]" using assms(2) by (simp add: upt_conv_Cons)
  have "match_loop ?n (zip [0 ..< ?n] (rev title_list))
          (music_files_of (children directory fs)) [] = Inl TypeError_join"
    unfolding r n using assms(4) by (simp add: Let_def)
  then show ?thesis
    using assms(1,3) by (simp add: match_titles_to_files_def iterdir_def Let_def)
qed

text \<open>
  C5. Two files whose stems both contain the number of track 2: the source means to
  raise a \<open>RuntimeError\<close> naming both, but joining the \<open>Path\<close> objects into the message
  raises \<open>TypeError\<close> first, so the error that leaves the matcher names no file.
\<close>

theorem ambiguous_match_raises_type_error:
  "match_titles_to_files [''Intro'', ''Outro''] [''album'']
     [([''album''], Dir), ([''album'', ''02-a.wav''], File), ([''album'', ''02-b.wav''], File)]
   = Inl TypeError_join"
  by code_simp

section \<open>Properties of the multi-disc sequencer\<close>

text \<open>
  Two runs of the ripper adapter. A ripper that fails deposits nothing and raises
  nothing, since the status checked is that of the closing \<open>cd\<close>. With \<open>PWD\<close> unset the
  closing \<open>cd\<close> fails, so the error is raised after a rip that went well.
\<close>

lemma failing_ripper_raises_nothing:
  "map_prod id files
     (rip_cd_to_folder [''tmp'']
        \<lparr>files = [([''home''], Dir), ([''tmp''], Dir)], stdin = [], trace = [],
         drive = [None], programs = [], json_files = [], temp = [''t''],
         pwd = Some [''home'']\<rparr>)
   = (Inr (), [([''home''], Dir), ([''tmp''], Dir)])"
  by code_simp

lemma unset_pwd_raises_after_rip:
  "map_prod id files
     (rip_cd_to_folder [''tmp'']
        \<lparr>files = [([''home''], Dir), ([''tmp''], Dir)], stdin = [], trace = [],
         drive = [Some [''track01.cdda.wav'']], programs = [], json_files = [],
         temp = [''t''], pwd = None\<rparr>)
   = (Inl CalledProcessError,
      [([''home''], Dir), ([''tmp''], Dir), ([''tmp'', ''track01.cdda.wav''], File)])"
  by code_simp

text \<open>
  A live relocation that returns at all returns 0: every entry of the scratch
  directory has been moved below the raw-track directory, so the listing that is
  counted afterwards is empty. (The scratch directory is not the raw-track directory
  nor inside it.)
\<close>

lemma below_append: "below d (d @ xs)"
  by (simp add: below_def)

lemma below_trans: "below a b \<Longrightarrow> below b c \<Longrightarrow> below a c"
proof -
  assume ab: "below a b" and bc: "below b c"
  from ab have "b = a @ drop (length a) b" unfolding below_def by (metis append_take_drop_id)
  moreover from bc have "c = b @ drop (length b) c" unfolding below_def by (metis append_take_drop_id)
  ultimately have "c = a @ (drop (length a) b @ drop (length b) c)" by (metis append_assoc)
  then show "below a c" by (metis below_append)
qed

lemma below_butlast:
  assumes "below (raw @ [x]) p"
  shows "below raw (butlast p)"
proof -
  from assms have "p = (raw @ [x]) @ drop (length (raw @ [x])) p"
    unfolding below_def by (metis append_take_drop_id)
  then obtain ys where "p = raw @ x # ys" by (metis append_Cons append_Nil append_assoc)
  then have "butlast p = raw @ butlast (x # ys)" by (simp add: butlast_append)
  then show ?thesis by (metis below_append)
qed

lemma not_below_child: "\<not> below (wav @ [x]) wav"
  by (simp add: below_def)

lemma children_rename:
  assumes "\<not> below raw wav" and "below (raw @ [x]) dst" and "parent f = wav" and "f \<noteq> []"
  shows "set (children wav (rename_tree f dst fs)) \<subseteq> set (children wav fs) - {f}"
proof
  fix p
  assume "p \<in> set (children wav (rename_tree f dst fs))"
  then have pne: "p \<noteq> []" and pp: "parent p = wav"
    and pin: "p \<in> fst ` set (rename_tree f dst fs)"
    by (auto simp: children_def)
  from pin obtain q k where qk: "(q, k) \<in> set fs" 
    and pq: "p = (if below f q then dst @ drop (length f) q else q)"
    by (auto simp: rename_tree_def split: if_splits)
  show "p \<in> set (children wav fs) - {f}"
  proof (cases "below f q")
    case True
    then have "p = dst @ drop (length f) q" using pq by simp
    then have "below dst p" by (metis below_append)
    then have "below (raw @ [x]) p" using assms(2) by (rule below_trans [rotated])
    then have "below raw (butlast p)" by (rule below_butlast)
    then show ?thesis using pp assms(1) by (simp add: parent_def)
  next
    case False
    then have "p = q" using pq by simp
    moreover have "q \<noteq> f" using False by (auto simp: below_def)
    ultimately show ?thesis using qk pne pp by (force simp: children_def)
  qed
qed

lemma is_dir_rename:
  assumes "\<not> below raw wav" and "below (raw @ [x]) dst" and "parent f = wav" and "f \<noteq> []"
      and "is_dir wav fs"
  shows "is_dir wav (rename_tree f dst fs)"
proof -
  have "below raw (raw @ [x])" by (rule below_append)
  then have "below raw dst" using assms(2) by (rule below_trans)
  then have nd: "\<not> below dst wav" using assms(1) below_trans by blast
  have "butlast f @ [last f] = f" using assms(4) by (rule append_butlast_last_id)
  then have "f = wav @ [last f]" using assms(3) by (simp add: parent_def)
  then have nf: "\<not> below f wav" by (metis not_below_child)
  have "(wav, Dir) \<in> set fs" using assms(5) by (simp add: is_dir_def)
  then have "(wav, Dir) \<in> set (rename_tree f dst fs)"
    using nd nf by (force simp: rename_tree_def)
  then show ?thesis by (simp add: is_dir_def)
qed

lemma shutil_move_files:
  assumes "shutil_move src (raw @ [x]) w = (Inr u, w')"
  shows "\<exists>dst. below (raw @ [x]) dst \<and> files w' = rename_tree src dst (files w)"
proof -
  let ?dst = "if is_dir (raw @ [x]) (files w) then (raw @ [x]) @ [path_name src] else raw @ [x]"
  have "files w' = rename_tree src ?dst (files w)"
    using assms by (auto simp: shutil_move_def Let_def emit_def split: if_splits)
  moreover have "below (raw @ [x]) ?dst" by (simp add: below_def)
  ultimately show ?thesis by blast
qed

lemma move_loop_empties:
  assumes "move_loop entries raw initial_index prefix False w = (Inr u, w')"
      and "\<not> below raw wav"
      and "\<forall>f \<in> set entries. f \<noteq> [] \<and> parent f = wav"
      and "is_dir wav (files w)"
  shows "set (children wav (files w')) \<subseteq> set (children wav (files w)) - set entries
         \<and> is_dir wav (files w')"
  using assms
proof (induction entries arbitrary: w)
  case Nil
  then show ?case by simp
next
  case (Cons f entries)
  let ?name = "takeWhile (\<lambda>c. c \<noteq> CHR ''.'') (stem f)"
  from Cons.prems(1) obtain k where k: "py_int (take 2 (drop 5 ?name)) = Some k"
    by (auto simp: Let_def split: option.splits)
  let ?target = "raw @ [track_file_name prefix (k + initial_index)]"
  obtain r1 w1 where mv: "shutil_move f ?target w = (r1, w1)" by (metis surj_pair)
  from Cons.prems(1) k mv obtain u1 where r1: "r1 = Inr u1"
    and rest: "move_loop entries raw initial_index prefix False w1 = (Inr u, w')"
    by (cases r1) (auto simp: Let_def)
  from shutil_move_files [OF mv [unfolded r1]] obtain dst where
    d: "below ?target dst" and fw: "files w1 = rename_tree f dst (files w)"
    by blast
  have ff: "f \<noteq> []" "parent f = wav" using Cons.prems(3) by auto
  have c1: "set (children wav (files w1)) \<subseteq> set (children wav (files w)) - {f}"
    unfolding fw by (rule children_rename [OF Cons.prems(2) d ff(2) ff(1)])
  have d1: "is_dir wav (files w1)"
    unfolding fw by (rule is_dir_rename [OF Cons.prems(2) d ff(2) ff(1) Cons.prems(4)])
  from Cons.IH [OF rest Cons.prems(2) _ d1] Cons.prems(3)
  have "set (children wav (files w')) \<subseteq> set (children wav (files w1)) - set entries"
    and "is_dir wav (files w')"
    by auto
  then show ?case using c1 by auto
qed

lemma live_relocation_returns_zero:
  assumes "move_wav_files_to_album wav album_path initial_index prefix False w = (Inr n, w')"
      and "\<not> below (album_path @ [''raw'']) wav"
  shows "n = 0"
proof -
  from assms(1) have dir: "is_dir wav (files w)"
    by (auto simp: move_wav_files_to_album_def iterdir_def split: if_splits)
  then have it: "iterdir wav (files w) = Inr (children wav (files w))" by (simp add: iterdir_def)
  obtain r1 w1 where ml: "move_loop (children wav (files w)) (album_path @ [''raw''])
                            initial_index prefix False w = (r1, w1)"
    by (metis surj_pair)
  from assms(1) it ml obtain u where r1: "r1 = Inr u"
    by (cases r1) (auto simp: move_wav_files_to_album_def)
  have ch: "\<forall>f \<in> set (children wav (files w)). f \<noteq> [] \<and> parent f = wav"
    by (auto simp: children_def)
  from move_loop_empties [OF ml [unfolded r1] assms(2) ch dir]
  have e: "children wav (files w1) = []" and d1: "is_dir wav (files w1)" by auto
  from assms(1) it ml r1 d1 e show ?thesis
    by (simp add: move_wav_files_to_album_def iterdir_def)
qed

text \<open>
  C1. A live run over two discs, the first with ten tracks and the second with one.
  After the ten moves of disc 1 the scratch directory is empty, so the count that
  \<open>move_wav_files_to_album\<close> returns is 0 and the running offset stays 0: the eleventh
  move takes track 1 of disc 2 to index 01, not to index 11. The second equation is the
  relocation of disc 1 alone: ten files are moved and the value returned is 0.
\<close>

theorem live_run_offset_not_accumulated:
  "drop 10 (moves_of (trace (snd (rip_album_from_cd [''album''] 2 False
       \<lparr>files = [([''album''], Dir)], stdin = [[], []], trace = [],
        drive = [Some [''track01.cdda.wav'', ''track02.cdda.wav'', ''track03.cdda.wav'',
                       ''track04.cdda.wav'', ''track05.cdda.wav'', ''track06.cdda.wav'',
                       ''track07.cdda.wav'', ''track08.cdda.wav'', ''track09.cdda.wav'',
                       ''track10.cdda.wav''],
                 Some [''track01.cdda.wav'']],
        programs = [], json_files = [], temp = [''tmp''], pwd = Some [''album'']\<rparr>))))
     = [([''tmp'', ''track01.cdda.wav''], [''album'', ''raw'', ''cd02track01.wav''])]
   \<and>
   map_prod id (\<lambda>w. length (moves_of (trace w)))
     (move_wav_files_to_album [''tmp''] [''album''] 0 (disc_prefix 1) False
       \<lparr>files = [([''album''], Dir), ([''album'', ''raw''], Dir), ([''tmp''], Dir),
                 ([''tmp'', ''track01.cdda.wav''], File), ([''tmp'', ''track02.cdda.wav''], File),
                 ([''tmp'', ''track03.cdda.wav''], File), ([''tmp'', ''track04.cdda.wav''], File),
                 ([''tmp'', ''track05.cdda.wav''], File), ([''tmp'', ''track06.cdda.wav''], File),
                 ([''tmp'', ''track07.cdda.wav''], File), ([''tmp'', ''track08.cdda.wav''], File),
                 ([''tmp'', ''track09.cdda.wav''], File), ([''tmp'', ''track10.cdda.wav''], File)],
        stdin = [], trace = [], drive = [], programs = [], json_files = [],
        temp = [''tmp''], pwd = Some [''album'']\<rparr>)
     = (Inr 0, 10)"
  by code_simp

text \<open>
  C2. Two discs of one track each, so that the scratch directory holds the one file
  \<open>track01.cdda.wav\<close> after either rip in both kinds of run. The dry run moves nothing
  and logs index 02 for the second disc, because the file it did not move is still
  counted; the live run moves the second disc's track to index 01. The two lists of
  pairs differ.
\<close>

theorem dry_run_pairs_differ_from_live_moves:
  "moves_of (trace (snd (rip_album_from_cd [''album''] 2 True
       \<lparr>files = [([''album''], Dir)], stdin = [[], []], trace = [],
        drive = [Some [''track01.cdda.wav''], Some [''track01.cdda.wav'']],
        programs = [], json_files = [], temp = [''tmp''], pwd = Some [''album'']\<rparr>))) = []
   \<and>
   logged_moves_of (trace (snd (rip_album_from_cd [''album''] 2 True
       \<lparr>files = [([''album''], Dir)], stdin = [[], []], trace = [],
        drive = [Some [''track01.cdda.wav''], Some [''track01.cdda.wav'']],
        programs = [], json_files = [], temp = [''tmp''], pwd = Some [''album'']\<rparr>)))
     = [([''tmp'', ''track01.cdda.wav''], [''album'', ''raw'', ''cd01track01.wav'']),
        ([''tmp'', ''track01.cdda.wav''], [''album'', ''raw'', ''cd02track02.wav''])]
   \<and>
   moves_of (trace (snd (rip_album_from_cd [''album''] 2 False
       \<lparr>files = [([''album''], Dir)], stdin = [[], []], trace = [],
        drive = [Some [''track01.cdda.wav''], Some [''track01.cdda.wav'']],
        programs = [], json_files = [], temp = [''tmp''], pwd = Some [''album'']\<rparr>)))
     = [([''tmp'', ''track01.cdda.wav''], [''album'', ''raw'', ''cd01track01.wav'']),
        ([''tmp'', ''track01.cdda.wav''], [''album'', ''raw'', ''cd02track01.wav''])]"
  by code_simp

text \<open>
  For every disc index from 1 to 99 other than 9 and every track number from 1 to 99,
  the file name is the disc index and the track number, each on two digits, around
  the marker.
\<close>

lemma length_nat_str_digit: "n < 10 \<Longrightarrow> length (nat_str n) = 1"
  by (simp add: nat_str.simps)

lemma length_nat_str_two: "10 \<le> n \<Longrightarrow> n < 100 \<Longrightarrow> length (nat_str n) = 2"
proof -
  assume a: "10 \<le> n" "n < 100"
  then have "n div 10 < 10" by simp
  then have "length (nat_str (n div 10)) = 1" by (rule length_nat_str_digit)
  moreover have "nat_str n = nat_str (n div 10) @ [digit_char (n mod 10)]"
    using a by (subst nat_str.simps) simp
  ultimately show ?thesis by simp
qed

lemma length_pad2: "0 \<le> k \<Longrightarrow> k < 100 \<Longrightarrow> length (pad2 k) = 2"
  by (cases "k < 10") (simp_all add: pad2_def py_str_def length_nat_str_digit length_nat_str_two)

lemma file_name_padded_except_disc_nine:
  assumes "1 \<le> n" "n \<le> 99" "n \<noteq> 9" "1 \<le> m" "m \<le> 99"
  shows "track_file_name (disc_prefix n) m = ''cd'' @ pad2 n @ ''track'' @ pad2 m @ ''.wav''"
  using assms by (auto simp: track_file_name_def disc_prefix_def pad2_def)

text \<open>
  C7. Disc 9: the prefix is chosen by \<open>n < 9\<close>, so the single-digit disc index 9 is not
  padded, and track 1 of disc 9 is named \<open>cd9track01.wav\<close> rather than \<open>cd09track01.wav\<close>.
  Disc 8 and disc 10 are named as specified.
\<close>

theorem disc_nine_prefix_not_padded:
  "disc_prefix 9 = ''cd9track''
   \<and> track_file_name (disc_prefix 9) 1 = ''cd9track01.wav''
   \<and> track_file_name (disc_prefix 8) 1 = ''cd08track01.wav''
   \<and> track_file_name (disc_prefix 10) 12 = ''cd10track12.wav''"
  by code_simp

section \<open>Properties of the converter\<close>

lemma overwrite_loop_invalid:
  assumes "\<forall>a \<in> set bad. a \<noteq> ''y'' \<and> a \<noteq> ''N''"
  shows "overwrite_loop prompt (bad @ answers) =
           (case overwrite_loop prompt answers of
              (r, rest', evs) \<Rightarrow> (r, rest', reprompts prompt (length bad) @ evs))"
  using assms
proof (induction bad)
  case Nil
  then show ?case by (simp add: reprompts_def split: prod.splits)
next
  case (Cons a bad)
  then show ?case by (simp add: reprompts_def split: prod.splits)
qed

lemma trace_transcode:
  "trace (snd (transcode wav_file mp3_file keep_wav w))
     = trace w @ [Run (Ffmpeg wav_file mp3_file)]"
  by (simp add: transcode_def run_program_def emit_def Let_def)

text \<open>
  C10. The output file of a conversion exists already, and the operator first types any
  number of lines that are neither \<open>y\<close> nor \<open>N\<close>. Each of them is answered by the
  complaint and a new prompt, and none is an error. If the next line is \<open>N\<close>, the path of
  the existing file is returned, and nothing has happened but the prompting: no
  transcoder was run and no file changed. If the next line is \<open>y\<close>, the run continues
  with the conversion, so the transcoder is started, after the last prompt.
\<close>

theorem overwrite_confirmation:
  assumes "is_file wav_file (files w)"
      and "out = (case output_dir of None \<Rightarrow> parent wav_file | Some d \<Rightarrow> d)"
      and "is_dir out (files w)"
      and "mp3_file = out @ [stem wav_file @ ''.mp3'']"
      and "is_file mp3_file (files w)"
      and "prompt = path_str mp3_file @ '' exists. Overwrite? [y/N]: ''"
      and "\<forall>a \<in> set bad. a \<noteq> ''y'' \<and> a \<noteq> ''N''"
  shows "wav_to_mp3 wav_file keep_wav output_dir (w\<lparr>stdin := bad @ ''N'' # rest\<rparr>)
           = (Inr mp3_file,
              w\<lparr>stdin := rest,
                trace := trace w @ reprompts prompt (length bad) @ [Input prompt]\<rparr>)
       \<and> wav_to_mp3 wav_file keep_wav output_dir (w\<lparr>stdin := bad @ ''y'' # rest\<rparr>)
           = transcode wav_file mp3_file keep_wav
               (w\<lparr>stdin := rest,
                  trace := trace w @ reprompts prompt (length bad) @ [Input prompt]\<rparr>)
       \<and> trace (snd (wav_to_mp3 wav_file keep_wav output_dir
                         (w\<lparr>stdin := bad @ ''y'' # rest\<rparr>)))
           = trace w @ reprompts prompt (length bad)
               @ [Input prompt, Run (Ffmpeg wav_file mp3_file)]"
proof -
  have n: "overwrite_loop prompt (bad @ ''N'' # rest)
             = (Inr False, rest, reprompts prompt (length bad) @ [Input prompt])"
    using overwrite_loop_invalid [OF assms(7), of prompt "''N'' # rest"] by simp
  have y: "overwrite_loop prompt (bad @ ''y'' # rest)
             = (Inr True, rest, reprompts prompt (length bad) @ [Input prompt])"
    using overwrite_loop_invalid [OF assms(7), of prompt "''y'' # rest"] by simp
  have c1: "wav_to_mp3 wav_file keep_wav output_dir (w\<lparr>stdin := bad @ ''N'' # rest\<rparr>)
           = (Inr mp3_file,
              w\<lparr>stdin := rest,
                trace := trace w @ reprompts prompt (length bad) @ [Input prompt]\<rparr>)"
    using assms(1,3,5) n
    by (simp add: wav_to_mp3_def Let_def assms(2) [symmetric] assms(4) [symmetric]
          assms(6) [symmetric])
  have c2: "wav_to_mp3 wav_file keep_wav output_dir (w\<lparr>stdin := bad @ ''y'' # rest\<rparr>)
           = transcode wav_file mp3_file keep_wav
               (w\<lparr>stdin := rest,
                  trace := trace w @ reprompts prompt (length bad) @ [Input prompt]\<rparr>)"
    using assms(1,3,5) y
    by (simp add: wav_to_mp3_def Let_def assms(2) [symmetric] assms(4) [symmetric]
          assms(6) [symmetric])
  have c3: "trace (snd (wav_to_mp3 wav_file keep_wav output_dir
                          (w\<lparr>stdin := bad @ ''y'' # rest\<rparr>)))
           = trace w @ reprompts prompt (length bad)
               @ [Input prompt, Run (Ffmpeg wav_file mp3_file)]"
    by (simp only: c2 trace_transcode) simp
  from c1 c2 c3 show ?thesis by (intro conjI)
qed

theorem overwrite_confirmation_witness:
  "wav_to_mp3 [''album'', ''a.wav''] True None
     \<lparr>files = [([''album''], Dir), ([''album'', ''a.wav''], File), ([''album'', ''a.mp3''], File)],
      stdin = [''maybe'', ''Y'', ''N'', ''later''], trace = [], drive = [], programs = [],
      json_files = [], temp = [''tmp''], pwd = Some [''album'']\<rparr>
   = (Inr [''album'', ''a.mp3''],
      \<lparr>files = [([''album''], Dir), ([''album'', ''a.wav''], File), ([''album'', ''a.mp3''], File)],
       stdin = [''later''],
       trace = [Input (path_str [''album'', ''a.mp3''] @ '' exists. Overwrite? [y/N]: ''),
                Print invalid_answer,
                Input (path_str [''album'', ''a.mp3''] @ '' exists. Overwrite? [y/N]: ''),
                Print invalid_answer,
                Input (path_str [''album'', ''a.mp3''] @ '' exists. Overwrite? [y/N]: '')],
       drive = [], programs = [], json_files = [], temp = [''tmp''], pwd = Some [''album'']\<rparr>)
   \<and>
   trace (snd (wav_to_mp3 [''album'', ''a.wav''] True None
     \<lparr>files = [([''album''], Dir), ([''album'', ''a.wav''], File), ([''album'', ''a.mp3''], File)],
      stdin = [''maybe'', ''Y'', ''y'', ''later''], trace = [], drive = [], programs = [],
      json_files = [], temp = [''tmp''], pwd = Some [''album'']\<rparr>))
   = [Input (path_str [''album'', ''a.mp3''] @ '' exists. Overwrite? [y/N]: ''),
      Print invalid_answer,
      Input (path_str [''album'', ''a.mp3''] @ '' exists. Overwrite? [y/N]: ''),
      Print invalid_answer,
      Input (path_str [''album'', ''a.mp3''] @ '' exists. Overwrite? [y/N]: ''),
      Run (Ffmpeg [''album'', ''a.wav''] [''album'', ''a.mp3''])]"
proof -
  let ?w = "\<lparr>files = [([''album''], Dir), ([''album'', ''a.wav''], File),
                       ([''album'', ''a.mp3''], File)],
             stdin = [], trace = [], drive = [], programs = [],
             json_files = [], temp = [''tmp''], pwd = Some [''album'']\<rparr>"
  have h1: "is_file [''album'', ''a.wav''] (files ?w)" by (simp add: is_file_def)
  have h2: "[''album''] = (case None of None \<Rightarrow> parent [''album'', ''a.wav''] | Some d \<Rightarrow> d)"
    by (simp add: parent_def)
  have h3: "is_dir [''album''] (files ?w)" by (simp add: is_dir_def)
  have st: "stem [''album'', ''a.wav''] = ''a''" by code_simp
  have h4: "[''album'', ''a.mp3''] = [''album''] @ [stem [''album'', ''a.wav''] @ ''.mp3'']"
    by (simp only: st) simp
  have h5: "is_file [''album'', ''a.mp3''] (files ?w)" by (simp add: is_file_def)
  have h7: "\<forall>a \<in> set [''maybe'', ''Y'']. a \<noteq> ''y'' \<and> a \<noteq> ''N''" by simp
  note inst = overwrite_confirmation [OF h1 h2 h3 h4 h5 refl h7, of True "[''later'']"]
  from inst [THEN conjunct1] inst [THEN conjunct2, THEN conjunct2]
  show ?thesis by (simp add: reprompts_def)
qed

section \<open>Properties of the album pipeline\<close>

text \<open>
  A configuration file that holds valid JSON other than an object, here an empty
  array: it is loaded without complaint, the \<open>.wav\<close> file is converted, and the run
  fails when step (3) asks for the songs.
\<close>

lemma array_config_fails_after_conversion:
  "map_prod id trace
     (populate_album_metadata [''album''] None None
        \<lparr>files = [([''album''], Dir), ([''album'', ''c.json''], File),
                  ([''album'', ''a.wav''], File)],
         stdin = [], trace = [], drive = [], programs = [],
         json_files = [([''album'', ''c.json''], JArray [])],
         temp = [''tmp''], pwd = Some [''album'']\<rparr>)
   = (Inl TypeError_subscript,
      [Print ''(1) Loading album metadata from /album/c.json'',
       Print ''(2) Converting .wav files to .mp3'',
       Run (Ffmpeg [''album'', ''a.wav''] [''album'', ''a.mp3'']),
       Print ''(3) Attempting to match metadata song titles with files''])"
  by code_simp

text \<open>
  C8, as the claim states it, fails: with two \<open>.json\<close> files in the directory and no
  configuration path given, the pipeline takes the one listed first and runs to the
  end.
\<close>

theorem two_json_files_first_is_used:
  "length (filter (\<lambda>f. suffix f = ''.json'')
      (children [''album'']
         [([''album''], Dir), ([''album'', ''a.json''], File), ([''album'', ''b.json''], File),
          ([''album'', ''01-x.mp3''], File)])) = 2
   \<and> resolve_config [''album''] None
        [([''album''], Dir), ([''album'', ''a.json''], File), ([''album'', ''b.json''], File),
         ([''album'', ''01-x.mp3''], File)] = Inr [''album'', ''a.json'']
   \<and> fst (populate_album_metadata [''album''] None None
        \<lparr>files = [([''album''], Dir), ([''album'', ''a.json''], File),
                  ([''album'', ''b.json''], File), ([''album'', ''01-x.mp3''], File)],
         stdin = [], trace = [], drive = [], programs = [],
         json_files = [([''album'', ''a.json''],
                        JObject \<lparr>meta_artist = Some ''A'', meta_album = None, meta_genre = None,
                         meta_date = None, meta_songs = Some [''x'']\<rparr>)],
         temp = [''tmp''], pwd = Some [''album'']\<rparr>) = Inr ()"
  by code_simp

text \<open>
  C8, amended. The target directory is a directory and no configuration path is given.
  When the directory lists no entry with suffix \<open>.json\<close>, the pipeline fails with the
  missing-file error. Otherwise, however many such entries there are, the configuration
  resolves to the first of them in listing order, and the pipeline goes on from step
  (1) with that entry. When that entry is a regular file, the run is the run with that
  path given explicitly.
\<close>

theorem config_resolution:
  assumes "is_dir album_directory (files w)"
      and "jsons = filter (\<lambda>f. suffix f = ''.json'') (children album_directory (files w))"
  shows "(jsons = [] \<longrightarrow>
            populate_album_metadata album_directory None output_directory w
              = (Inl (FileNotFoundError_no_config album_directory), w))
       \<and> (jsons \<noteq> [] \<longrightarrow>
            resolve_config album_directory None (files w) = Inr (hd jsons)
            \<and> populate_album_metadata album_directory None output_directory w
                = run_from_config (hd jsons) album_directory output_directory w)
       \<and> (jsons \<noteq> [] \<and> is_file (hd jsons) (files w) \<longrightarrow>
            populate_album_metadata album_directory None output_directory w
              = populate_album_metadata album_directory (Some (hd jsons)) output_directory w)"
proof -
  have stages: "\<And>config_json config.
      resolve_config album_directory config_json (files w) = Inr config \<Longrightarrow>
      populate_album_metadata album_directory config_json output_directory w
        = run_from_config config album_directory output_directory w"
    using assms(1)
    by (simp add: populate_album_metadata_def load_stage_def run_from_config_def)
  have none: "jsons = [] \<Longrightarrow>
      populate_album_metadata album_directory None output_directory w
        = (Inl (FileNotFoundError_no_config album_directory), w)"
    using assms
    by (simp add: populate_album_metadata_def load_stage_def resolve_config_def iterdir_def)
  have first: "jsons \<noteq> [] \<Longrightarrow> resolve_config album_directory None (files w) = Inr (hd jsons)"
  proof -
    assume "jsons \<noteq> []"
    then obtain f rest where j: "jsons = f # rest" by (cases jsons) auto
    show ?thesis
      using assms(1) assms(2) [symmetric] j by (simp add: resolve_config_def iterdir_def)
  qed
  have given: "is_file (hd jsons) (files w) \<Longrightarrow>
      resolve_config album_directory (Some (hd jsons)) (files w) = Inr (hd jsons)"
    by (simp add: resolve_config_def)
  show ?thesis
  proof (intro conjI impI)
    assume "jsons = []"
    then show "populate_album_metadata album_directory None output_directory w
                 = (Inl (FileNotFoundError_no_config album_directory), w)"
      by (rule none)
  next
    assume "jsons \<noteq> []"
    then show "resolve_config album_directory None (files w) = Inr (hd jsons)" by (rule first)
  next
    assume "jsons \<noteq> []"
    then show "populate_album_metadata album_directory None output_directory w
                 = run_from_config (hd jsons) album_directory output_directory w"
      by (intro stages first)
  next
    assume a: "jsons \<noteq> [] \<and> is_file (hd jsons) (files w)"
    then have "populate_album_metadata album_directory None output_directory w
                 = run_from_config (hd jsons) album_directory output_directory w"
      by (intro stages first) simp
    moreover have "populate_album_metadata album_directory (Some (hd jsons)) output_directory w
                 = run_from_config (hd jsons) album_directory output_directory w"
      using a by (intro stages given) simp
    ultimately show "populate_album_metadata album_directory None output_directory w
          = populate_album_metadata album_directory (Some (hd jsons)) output_directory w"
      by simp
  qed
qed

theorem config_resolution_witness:
  "populate_album_metadata [''album''] None None
     \<lparr>files = [([''album''], Dir), ([''album'', ''01-x.mp3''], File)],
      stdin = [], trace = [], drive = [], programs = [], json_files = [],
      temp = [''tmp''], pwd = Some [''album'']\<rparr>
   = (Inl (FileNotFoundError_no_config [''album'']),
      \<lparr>files = [([''album''], Dir), ([''album'', ''01-x.mp3''], File)],
       stdin = [], trace = [], drive = [], programs = [], json_files = [],
       temp = [''tmp''], pwd = Some [''album'']\<rparr>)
   \<and>
   resolve_config [''album''] None
     [([''album''], Dir), ([''album'', ''b.json''], File), ([''album'', ''a.json''], File),
      ([''album'', ''01-x.mp3''], File)] = Inr [''album'', ''b.json'']
   \<and>
   fst (populate_album_metadata [''album''] None None
     \<lparr>files = [([''album''], Dir), ([''album'', ''b.json''], File),
               ([''album'', ''a.json''], File), ([''album'', ''01-x.mp3''], File)],
      stdin = [], trace = [], drive = [], programs = [],
      json_files = [([''album'', ''b.json''],
                     JObject \<lparr>meta_artist = Some ''A'', meta_album = None, meta_genre = None,
                              meta_date = None, meta_songs = Some [''x'']\<rparr>)],
      temp = [''tmp''], pwd = Some [''album'']\<rparr>) = Inr ()
   \<and>
   fst (populate_album_metadata [''album''] (Some [''album'', ''b.json'']) None
     \<lparr>files = [([''album''], Dir), ([''album'', ''b.json''], File),
               ([''album'', ''a.json''], File), ([''album'', ''01-x.mp3''], File)],
      stdin = [], trace = [], drive = [], programs = [],
      json_files = [([''album'', ''b.json''],
                     JObject \<lparr>meta_artist = Some ''A'', meta_album = None, meta_genre = None,
                              meta_date = None, meta_songs = Some [''x'']\<rparr>)],
      temp = [''tmp''], pwd = Some [''album'']\<rparr>) = Inr ()"
proof -
  let ?w0 = "\<lparr>files = [([''album''], Dir), ([''album'', ''01-x.mp3''], File)],
      stdin = [], trace = [], drive = [], programs = [], json_files = [],
      temp = [''tmp''], pwd = Some [''album'']\<rparr>"
  let ?w2 = "\<lparr>files = [([''album''], Dir), ([''album'', ''b.json''], File),
               ([''album'', ''a.json''], File), ([''album'', ''01-x.mp3''], File)],
      stdin = [], trace = [], drive = [], programs = [],
      json_files = [([''album'', ''b.json''],
                     JObject \<lparr>meta_artist = Some ''A'', meta_album = None, meta_genre = None,
                              meta_date = None, meta_songs = Some [''x'']\<rparr>)],
      temp = [''tmp''], pwd = Some [''album'']\<rparr>"
  have d0: "is_dir [''album''] (files ?w0)" by (simp add: is_dir_def)
  have j0: "[] = filter (\<lambda>f. suffix f = ''.json'') (children [''album''] (files ?w0))"
    by code_simp
  have d2: "is_dir [''album''] (files ?w2)" by (simp add: is_dir_def)
  have j2: "[[''album'', ''b.json''], [''album'', ''a.json'']]
              = filter (\<lambda>f. suffix f = ''.json'') (children [''album''] (files ?w2))"
    by code_simp
  have f2: "is_file [''album'', ''b.json''] (files ?w2)" by (simp add: is_file_def)
  have run: "fst (run_from_config [''album'', ''b.json''] [''album''] None ?w2) = Inr ()"
    by code_simp
  note a = config_resolution [OF d0 j0, of None, THEN conjunct1]
  note b = config_resolution [OF d2 j2, of None, THEN conjunct2, THEN conjunct1]
  note c = config_resolution [OF d2 j2, of None, THEN conjunct2, THEN conjunct2]
  from a have c1: "populate_album_metadata [''album''] None None ?w0
                 = (Inl (FileNotFoundError_no_config [''album'']), ?w0)"
    by simp
  from b have c2: "resolve_config [''album''] None (files ?w2) = Inr [''album'', ''b.json'']"
    and c3': "populate_album_metadata [''album''] None None ?w2
                = run_from_config [''album'', ''b.json''] [''album''] None ?w2"
    by simp_all
  from c f2 have c4': "populate_album_metadata [''album''] None None ?w2
                 = populate_album_metadata [''album''] (Some [''album'', ''b.json'']) None ?w2"
    by simp
  have c3: "fst (populate_album_metadata [''album''] None None ?w2) = Inr ()"
    by (simp only: c3' run)
  have c4: "fst (populate_album_metadata [''album''] (Some [''album'', ''b.json'']) None ?w2)
              = Inr ()"
    by (simp only: c4' [symmetric] c3)
  from c2 have c2': "resolve_config [''album''] None
     [([''album''], Dir), ([''album'', ''b.json''], File), ([''album'', ''a.json''], File),
      ([''album'', ''01-x.mp3''], File)] = Inr [''album'', ''b.json'']"
    by simp
  from c1 c2' c3 c4 show ?thesis by (intro conjI)
qed

text \<open>
  The conversion of step (2) with \<open>keep_wav=True\<close> and no output directory only ever
  adds \<open>.mp3\<close> files to the album directory, and it never runs the tagger.
\<close>

lemma tagger_runs_append: "tagger_runs (xs @ ys) = tagger_runs xs @ tagger_runs ys"
  by (induction xs rule: tagger_runs.induct) auto

lemma overwrite_loop_no_tagger:
  "overwrite_loop prompt answers = (r, rest, evs) \<Longrightarrow> tagger_runs evs = []"
  by (induction answers arbitrary: r rest evs) (auto split: if_splits prod.splits)

lemma is_file_exists: "is_file p fs \<Longrightarrow> path_exists p fs"
  by (force simp: is_file_def path_exists_def)

lemma transcode_keep:
  assumes "transcode a b True w = (r, w')"
  shows "tagger_runs (trace w') = tagger_runs (trace w)"
    and "files w' = files w \<or> files w' = files w @ [(b, File)]"
    and "r = Inr x \<Longrightarrow> path_exists b (files w')"
  using assms
  by (auto simp: transcode_def run_program_def emit_def write_file_def Let_def path_exists_def
        tagger_runs_append split: if_splits)

lemma wav_to_mp3_keep:
  assumes "wav_to_mp3 f True None w = (r, w')"
  shows "tagger_runs (trace w') = tagger_runs (trace w)"
    and "files w' = files w \<or> files w' = files w @ [(parent f @ [stem f @ ''.mp3''], File)]"
    and "r = Inr x \<Longrightarrow> path_exists (parent f @ [stem f @ ''.mp3'']) (files w')"
proof -
  let ?mp3 = "parent f @ [stem f @ ''.mp3'']"
  let ?goal = "tagger_runs (trace w') = tagger_runs (trace w)
     \<and> (files w' = files w \<or> files w' = files w @ [(?mp3, File)])
     \<and> (r = Inr x \<longrightarrow> path_exists ?mp3 (files w'))"
  have ?goal
  proof (cases "is_file f (files w) \<and> is_dir (parent f) (files w)")
    case False
    then show ?thesis using assms by (auto simp: wav_to_mp3_def Let_def split: if_splits)
  next
    case ok: True
    show ?thesis
    proof (cases "is_file ?mp3 (files w)")
      case False
      then have "transcode f ?mp3 True w = (r, w')"
        using assms ok by (simp add: wav_to_mp3_def Let_def)
      from transcode_keep [OF this] show ?thesis by blast
    next
      case True
      obtain r0 rest evs where
        ol: "overwrite_loop (path_str ?mp3 @ '' exists. Overwrite? [y/N]: '') (stdin w)
               = (r0, rest, evs)"
        by (metis prod_cases3)
      have ev: "tagger_runs evs = []" by (rule overwrite_loop_no_tagger [OF ol])
      let ?w1 = "w\<lparr>stdin := rest, trace := trace w @ evs\<rparr>"
      have ex: "path_exists ?mp3 (files w)" by (rule is_file_exists [OF True])
      show ?thesis
      proof (cases r0)
        case (Inl e)
        then have "(r, w') = (Inl e, ?w1)"
          using assms ok True ol by (simp add: wav_to_mp3_def Let_def)
        then show ?thesis using ev by (auto simp: tagger_runs_append)
      next
        case (Inr b)
        show ?thesis
        proof (cases b)
          case False
          then have "(r, w') = (Inr ?mp3, ?w1)"
            using assms ok True ol Inr by (simp add: wav_to_mp3_def Let_def)
          then show ?thesis using ev ex by (auto simp: tagger_runs_append)
        next
          case True
          then have "transcode f ?mp3 True ?w1 = (r, w')"
            using assms ok \<open>is_file ?mp3 (files w)\<close> ol Inr by (simp add: wav_to_mp3_def Let_def)
          from transcode_keep [OF this] show ?thesis using ev by (auto simp: tagger_runs_append)
        qed
      qed
    qed
  qed
  then show "tagger_runs (trace w') = tagger_runs (trace w)"
    and "files w' = files w \<or> files w' = files w @ [(?mp3, File)]"
    and "r = Inr x \<Longrightarrow> path_exists ?mp3 (files w')"
    by blast+
qed

lemma name_suffix_mp3: "s \<noteq> [] \<Longrightarrow> name_suffix (s @ ''.mp3'') = ''.mp3''"
  by (simp add: name_suffix_def rfind_def)

lemma stem_nonempty: "name_suffix nm = ''.wav'' \<Longrightarrow> name_stem nm \<noteq> []"
  by (auto simp: name_suffix_def name_stem_def split: option.splits if_splits)

lemma mp3_sibling:
  assumes "suffix f = ''.wav''"
  shows "parent f @ [stem f @ ''.mp3''] \<noteq> []"
    and "parent (parent f @ [stem f @ ''.mp3'']) = parent f"
    and "suffix (parent f @ [stem f @ ''.mp3'']) = ''.mp3''"
proof -
  show "parent f @ [stem f @ ''.mp3''] \<noteq> []" by simp
  show "parent (parent f @ [stem f @ ''.mp3'']) = parent f" by (simp add: parent_def)
  have "stem f \<noteq> []" using assms stem_nonempty by (simp add: suffix_def stem_def)
  then show "suffix (parent f @ [stem f @ ''.mp3'']) = ''.mp3''"
    by (simp add: suffix_def path_name_def name_suffix_mp3)
qed


lemma convert_invariant:
  assumes "\<forall>f \<in> set entries. parent f = album_directory"
      and "convert_wav_files entries None w = (r, w')"
  shows "\<exists>extra. files w' = files w @ extra
           \<and> (\<forall>e \<in> set extra. fst e \<noteq> [] \<and> parent (fst e) = album_directory
                                 \<and> suffix (fst e) = ''.mp3'')
           \<and> tagger_runs (trace w') = tagger_runs (trace w)"
  using assms
proof (induction entries arbitrary: w)
  case Nil
  then show ?case by simp
next
  case (Cons f entries)
  show ?case
  proof (cases "suffix f = ''.wav''")
    case False
    then have "convert_wav_files entries None w = (r, w')" using Cons.prems(2) by simp
    with Cons.IH [of w] Cons.prems(1) show ?thesis by simp
  next
    case wav: True
    obtain r1 w1 where step: "wav_to_mp3 f True None w = (r1, w1)" by (metis surj_pair)
    let ?mp3 = "parent f @ [stem f @ ''.mp3'']"
    have pf: "parent f = album_directory" using Cons.prems(1) by simp
    have t1: "tagger_runs (trace w1) = tagger_runs (trace w)"
      by (rule wav_to_mp3_keep(1) [OF step])
    have f1: "files w1 = files w \<or> files w1 = files w @ [(?mp3, File)]"
      by (rule wav_to_mp3_keep(2) [OF step])
    have ex1: "\<exists>extra. files w1 = files w @ extra
           \<and> (\<forall>e \<in> set extra. fst e \<noteq> [] \<and> parent (fst e) = album_directory
                                 \<and> suffix (fst e) = ''.mp3'')"
    proof (rule disjE [OF f1])
      assume "files w1 = files w"
      then show ?thesis by (intro exI [of _ "[]"]) simp
    next
      assume "files w1 = files w @ [(?mp3, File)]"
      then show ?thesis
        using mp3_sibling [OF wav] pf by (intro exI [of _ "[(?mp3, File)]"]) simp
    qed
    then obtain extra1 where
      e1: "files w1 = files w @ extra1"
      and g1: "\<forall>e \<in> set extra1. fst e \<noteq> [] \<and> parent (fst e) = album_directory
                                 \<and> suffix (fst e) = ''.mp3''"
      by blast
    show ?thesis
    proof (cases r1)
      case (Inl e)
      then have "(r, w') = (Inl e, w1)" using Cons.prems(2) wav step by simp
      then show ?thesis using e1 g1 t1 by auto
    next
      case (Inr x)
      then have rest: "convert_wav_files entries None w1 = (r, w')"
        using Cons.prems(2) wav step by simp
      from Cons.IH [OF _ rest] Cons.prems(1) obtain extra2 where
        e2: "files w' = files w1 @ extra2"
        and g2: "\<forall>e \<in> set extra2. fst e \<noteq> [] \<and> parent (fst e) = album_directory
                                 \<and> suffix (fst e) = ''.mp3''"
        and t2: "tagger_runs (trace w') = tagger_runs (trace w1)"
        by auto
      show ?thesis
      proof (intro exI [of _ "extra1 @ extra2"] conjI)
        show "files w' = files w @ extra1 @ extra2" using e1 e2 by simp
        show "\<forall>e \<in> set (extra1 @ extra2). fst e \<noteq> [] \<and> parent (fst e) = album_directory
                                 \<and> suffix (fst e) = ''.mp3''"
          using g1 g2 by auto
        show "tagger_runs (trace w') = tagger_runs (trace w)" using t1 t2 by simp
      qed
    qed
  qed
qed

lemma path_exists_append: "path_exists p fs \<Longrightarrow> path_exists p (fs @ extra)"
  by (auto simp: path_exists_def)

lemma convert_creates:
  assumes "\<forall>f \<in> set entries. parent f = album_directory"
      and "convert_wav_files entries None w = (Inr (), w')"
      and "wav_file \<in> set entries"
      and "suffix wav_file = ''.wav''"
  shows "path_exists (parent wav_file @ [stem wav_file @ ''.mp3'']) (files w')"
  using assms
proof (induction entries arbitrary: w)
  case Nil
  then show ?case by simp
next
  case (Cons f entries)
  let ?mp3 = "parent wav_file @ [stem wav_file @ ''.mp3'']"
  have later: "\<And>w1. convert_wav_files entries None w1 = (Inr (), w') \<Longrightarrow>
                  path_exists ?mp3 (files w1) \<Longrightarrow> path_exists ?mp3 (files w')"
  proof -
    fix w1
    assume c: "convert_wav_files entries None w1 = (Inr (), w')"
      and p: "path_exists ?mp3 (files w1)"
    from convert_invariant [OF _ c, of album_directory] Cons.prems(1)
    obtain extra where "files w' = files w1 @ extra" by auto
    then show "path_exists ?mp3 (files w')" using p by (simp add: path_exists_append)
  qed
  show ?case
  proof (cases "suffix f = ''.wav''")
    case False
    then have c: "convert_wav_files entries None w = (Inr (), w')" using Cons.prems(2) by simp
    have "wav_file \<in> set entries" using Cons.prems(3,4) False by auto
    with Cons.IH [OF _ c] Cons.prems(1,4) show ?thesis by simp
  next
    case wav: True
    obtain r1 w1 where step: "wav_to_mp3 f True None w = (r1, w1)" by (metis surj_pair)
    show ?thesis
    proof (cases r1)
      case (Inl e)
      then show ?thesis using Cons.prems(2) wav step by simp
    next
      case (Inr x)
      then have rest: "convert_wav_files entries None w1 = (Inr (), w')"
        using Cons.prems(2) wav step by simp
      show ?thesis
      proof (cases "wav_file = f")
        case True
        have "path_exists ?mp3 (files w1)"
          using wav_to_mp3_keep(3) [OF step Inr] True by simp
        then show ?thesis by (rule later [OF rest])
      next
        case False
        then have "wav_file \<in> set entries" using Cons.prems(3) by simp
        with Cons.IH [OF _ rest] Cons.prems(1,4) show ?thesis by simp
      qed
    qed
  qed
qed

lemma children_append: "children d (fs @ extra) = children d fs @ children d extra"
  by (simp add: children_def)

lemma children_extra:
  assumes "\<forall>e \<in> set extra. fst e \<noteq> [] \<and> parent (fst e) = d \<and> suffix (fst e) = ''.mp3''"
  shows "music_files_of (children d extra) = map fst extra"
  using assms by (induction extra) (auto simp: children_def music_files_of_def)

lemma music_files_append: "music_files_of (xs @ ys) = music_files_of xs @ music_files_of ys"
  by (simp add: music_files_of_def)

lemma children_parent: "f \<in> set (children d fs) \<Longrightarrow> parent f = d"
  by (auto simp: children_def)

lemma load_stage_ok:
  assumes "load_stage album_directory config_json w = (Inr loaded, w1)"
  shows "is_dir album_directory (files w)"
    and "files w1 = files w"
    and "tagger_runs (trace w1) = tagger_runs (trace w)"
  using assms
  by (auto simp: load_stage_def read_config_def emit_def Let_def tagger_runs_append
        split: if_splits sum.splits)

text \<open>
  C4, as the claim states it, fails: when the \<open>.wav\<close> file already has an \<open>.mp3\<close> beside
  it, the conversion adds no file, the matcher counts the same two music files as
  before and there is no count mismatch; the run ends in the matcher's no-match error.
\<close>

theorem existing_mp3_sibling_no_count_mismatch:
  "length (music_files_of (children [''album'']
      [([''album''], Dir), ([''album'', ''c.json''], File),
       ([''album'', ''a.wav''], File), ([''album'', ''a.mp3''], File)])) = 2
   \<and> fst (populate_album_metadata [''album''] None None
        \<lparr>files = [([''album''], Dir), ([''album'', ''c.json''], File),
                  ([''album'', ''a.wav''], File), ([''album'', ''a.mp3''], File)],
         stdin = [''N''], trace = [], drive = [], programs = [],
         json_files = [([''album'', ''c.json''],
                        JObject \<lparr>meta_artist = None, meta_album = None, meta_genre = None,
                         meta_date = None, meta_songs = Some [''x'', ''y'']\<rparr>)],
         temp = [''tmp''], pwd = Some [''album'']\<rparr>) = Inl (RuntimeError_no_match 2 ''y'')"
  by code_simp

text \<open>
  C4, amended. No output directory is given, the title list is as long as the list of
  music files the album directory holds at the start, and some \<open>.wav\<close> file of the
  directory has no entry named like its \<open>.mp3\<close> beside it. Whenever the configuration
  is loaded and the conversion step runs to its end, the directory then holds more
  music files than there are titles, the pipeline ends in the matcher's count-mismatch
  error, and the tagger has not been run.
\<close>

theorem pipeline_count_mismatch_after_conversion:
  assumes "load_stage album_directory config_json w = (Inr (album_metadata, kwargs), w1)"
      and "convert_stage album_directory None w1 = (Inr (), w2)"
      and "json_songs album_metadata = Inr title_list"
      and "length title_list = length (music_files_of (children album_directory (files w)))"
      and "wav_file \<in> set (children album_directory (files w))"
      and "suffix wav_file = ''.wav''"
      and "\<not> path_exists (album_directory @ [stem wav_file @ ''.mp3'']) (files w)"
  shows "length title_list < length (music_files_of (children album_directory (files w2)))
       \<and> populate_album_metadata album_directory config_json None w
           = (Inl (ValueError_count
                     (length (music_files_of (children album_directory (files w2))))
                     (length title_list)),
              emit (Print ''(3) Attempting to match metadata song titles with files'') w2)
       \<and> tagger_runs (trace (snd (populate_album_metadata album_directory config_json None w)))
           = tagger_runs (trace w)"
proof -
  let ?entries = "children album_directory (files w)"
  let ?w1' = "emit (Print ''(2) Converting .wav files to .mp3'') w1"
  let ?mp3 = "album_directory @ [stem wav_file @ ''.mp3'']"
  note l = load_stage_ok [OF assms(1)]
  have dir1: "is_dir album_directory (files ?w1')" using l(1,2) by (simp add: emit_def)
  have conv: "convert_wav_files ?entries None ?w1' = (Inr (), w2)"
    using assms(2) dir1 l(2) by (simp add: convert_stage_def iterdir_def Let_def emit_def)
  have par: "\<forall>f \<in> set ?entries. parent f = album_directory"
    by (simp add: children_parent)
  from convert_invariant [OF par conv] obtain extra where
    e: "files w2 = files ?w1' @ extra"
    and g: "\<forall>e \<in> set extra. fst e \<noteq> [] \<and> parent (fst e) = album_directory
                                 \<and> suffix (fst e) = ''.mp3''"
    and t: "tagger_runs (trace w2) = tagger_runs (trace ?w1')"
    by blast
  have e': "files w2 = files w @ extra" using e l(2) by (simp add: emit_def)
  have pw: "parent wav_file = album_directory" using assms(5) by (rule children_parent)
  have "path_exists (parent wav_file @ [stem wav_file @ ''.mp3'']) (files w2)"
    by (rule convert_creates [OF par conv assms(5) assms(6)])
  then have "path_exists ?mp3 (files w @ extra)" using pw e' by simp
  then have ne: "extra \<noteq> []" using assms(7) by (auto simp: path_exists_def)
  have cnt: "length (music_files_of (children album_directory (files w2)))
               = length title_list + length extra"
    using assms(4) by (simp add: e' children_append music_files_append children_extra [OF g])
  have less: "length title_list < length (music_files_of (children album_directory (files w2)))"
    using cnt ne by simp
  let ?w3 = "emit (Print ''(3) Attempting to match metadata song titles with files'') w2"
  have dir3: "is_dir album_directory (files ?w3)"
    using l(1) e' by (simp add: emit_def is_dir_def)
  have m: "match_titles_to_files title_list album_directory (files ?w3)
             = Inl (ValueError_count
                     (length (music_files_of (children album_directory (files w2))))
                     (length title_list))"
    using dir3 less by (simp add: match_titles_to_files_def iterdir_def Let_def emit_def)
  have tag: "tag_stage album_directory album_metadata kwargs w2
               = (Inl (ValueError_count
                     (length (music_files_of (children album_directory (files w2))))
                     (length title_list)), ?w3)"
    using m assms(3) by (simp add: tag_stage_def Let_def)
  have run: "populate_album_metadata album_directory config_json None w
           = (Inl (ValueError_count
                     (length (music_files_of (children album_directory (files w2))))
                     (length title_list)), ?w3)"
    by (simp add: populate_album_metadata_def assms(1) assms(2) tag)
  have tr: "tagger_runs (trace ?w3) = tagger_runs (trace w)"
    using t l(3) by (simp add: emit_def tagger_runs_append)
  show ?thesis using less run tr by simp
qed

theorem pipeline_count_mismatch_witness:
  "fst (populate_album_metadata [''album''] None None
        \<lparr>files = [([''album''], Dir), ([''album'', ''c.json''], File),
                  ([''album'', ''a.wav''], File)],
         stdin = [], trace = [], drive = [], programs = [],
         json_files = [([''album'', ''c.json''],
                        JObject \<lparr>meta_artist = None, meta_album = None, meta_genre = None,
                         meta_date = None, meta_songs = Some [''x'']\<rparr>)],
         temp = [''tmp''], pwd = Some [''album'']\<rparr>) = Inl (ValueError_count 2 1)
   \<and> tagger_runs (trace (snd (populate_album_metadata [''album''] None None
        \<lparr>files = [([''album''], Dir), ([''album'', ''c.json''], File),
                  ([''album'', ''a.wav''], File)],
         stdin = [], trace = [], drive = [], programs = [],
         json_files = [([''album'', ''c.json''],
                        JObject \<lparr>meta_artist = None, meta_album = None, meta_genre = None,
                         meta_date = None, meta_songs = Some [''x'']\<rparr>)],
         temp = [''tmp''], pwd = Some [''album'']\<rparr>))) = []"
proof -
  let ?w0 = "\<lparr>files = [([''album''], Dir), ([''album'', ''c.json''], File),
                  ([''album'', ''a.wav''], File)],
         stdin = [], trace = [], drive = [], programs = [],
         json_files = [([''album'', ''c.json''],
                        JObject \<lparr>meta_artist = None, meta_album = None, meta_genre = None,
                         meta_date = None, meta_songs = Some [''x'']\<rparr>)],
         temp = [''tmp''], pwd = Some [''album'']\<rparr>"
  let ?w1 = "\<lparr>files = [([''album''], Dir), ([''album'', ''c.json''], File),
                  ([''album'', ''a.wav''], File)],
         stdin = [], trace = [Print ''(1) Loading album metadata from /album/c.json''], drive = [], programs = [],
         json_files = [([''album'', ''c.json''],
                        JObject \<lparr>meta_artist = None, meta_album = None, meta_genre = None,
                         meta_date = None, meta_songs = Some [''x'']\<rparr>)],
         temp = [''tmp''], pwd = Some [''album'']\<rparr>"
  let ?w2 = "\<lparr>files = [([''album''], Dir), ([''album'', ''c.json''], File),
                  ([''album'', ''a.wav''], File), ([''album'', ''a.mp3''], File)],
         stdin = [], trace = [Print ''(1) Loading album metadata from /album/c.json'',
                  Print ''(2) Converting .wav files to .mp3'',
                  Run (Ffmpeg [''album'', ''a.wav''] [''album'', ''a.mp3''])], drive = [], programs = [],
         json_files = [([''album'', ''c.json''],
                        JObject \<lparr>meta_artist = None, meta_album = None, meta_genre = None,
                         meta_date = None, meta_songs = Some [''x'']\<rparr>)],
         temp = [''tmp''], pwd = Some [''album'']\<rparr>"
  let ?md = "\<lparr>meta_artist = None, meta_album = None, meta_genre = None,
              meta_date = None, meta_songs = Some [''x'']\<rparr>"
  have h1: "load_stage [''album''] None ?w0 = (Inr (JObject ?md, ?md), ?w1)" by code_simp
  have h2: "convert_stage [''album''] None ?w1 = (Inr (), ?w2)" by code_simp
  have h3: "json_songs (JObject ?md) = Inr [''x'']" by (simp add: json_songs_def)
  have h4: "length [''x''] = length (music_files_of (children [''album''] (files ?w0)))"
    by code_simp
  have h5: "[''album'', ''a.wav''] \<in> set (children [''album''] (files ?w0))" by code_simp
  have h6: "suffix [''album'', ''a.wav''] = ''.wav''" by code_simp
  have h7: "\<not> path_exists ([''album''] @ [stem [''album'', ''a.wav''] @ ''.mp3'']) (files ?w0)"
    by code_simp
  have mf2: "length (music_files_of (children [''album''] (files ?w2))) = 2" by code_simp
  note t = pipeline_count_mismatch_after_conversion [OF h1 h2 h3 h4 h5 h6 h7]
  have a: "fst (populate_album_metadata [''album''] None None ?w0) = Inl (ValueError_count 2 1)"
    using t [THEN conjunct2, THEN conjunct1] unfolding mf2 by simp
  have b: "tagger_runs (trace (snd (populate_album_metadata [''album''] None None ?w0))) = []"
    using t [THEN conjunct2, THEN conjunct2] by simp
  from a b show ?thesis by (intro conjI)
qed

end
